theory Spec2Isabelle
  imports Main "HOL-Library.AList" "HOL-Library.Multiset" "HOL-Library.Word"
begin
section \<open>The duck-ui session store and import pipeline\<close>

text \<open>
  A shallow embedding of \<^verbatim>\<open>src/store/index.ts\<close> (the zustand store), of the
  upload handler of \<^verbatim>\<open>src/components/explorer/FileImporter.tsx\<close> and of the two
  button guards of \<^verbatim>\<open>src/pages/Connections.tsx\<close>.

  Conventions. A store action is a function from the state to the new state. What the
  action awaits from outside (the embedded engine, the HTTP transport, the clock,
  \<^verbatim>\<open>crypto.randomUUID\<close>) is an argument of the function. A thrown JavaScript
  value is a value of type \<open>thrown\<close>; a \<^verbatim>\<open>try/catch\<close> is a case distinction
  on it. A JavaScript string whose characters are inspected (a query text, a table
  name) is a list of UTF-16 code units, \<open>jsstring\<close>; ids, names and messages, which
  are only compared and concatenated, are of type \<open>string\<close>.
\<close>

subsection \<open>JavaScript values, strings and errors\<close>

datatype thrown = JsError string | NonError

text \<open>\<^verbatim>\<open>error instanceof Error ? error.message : "Unknown error"\<close>\<close>

definition errorMessage :: "thrown \<Rightarrow> string" where
  "errorMessage e = (case e of JsError m \<Rightarrow> m | NonError \<Rightarrow> ''Unknown error'')"

type_synonym codeUnit = "16 word"

type_synonym jsstring = "codeUnit list"

text \<open>A text of characters below 256 as a JavaScript string.\<close>

definition js :: "string \<Rightarrow> jsstring" where
  "js s = map of_char s"

text \<open>
  The code units \<^verbatim>\<open>String.prototype.trim\<close> removes: WhiteSpace (TAB, VT, FF, SP,
  NBSP, ZWNBSP and the space separators of Unicode) and LineTerminator (LF, CR, LS, PS)
  of ECMAScript.
\<close>

definition isWhiteSpace :: "codeUnit \<Rightarrow> bool" where
  "isWhiteSpace u =
     (u \<in> set [0x0009, 0x000A, 0x000B, 0x000C, 0x000D, 0x0020, 0x00A0, 0x1680,
                0x2000, 0x2001, 0x2002, 0x2003, 0x2004, 0x2005, 0x2006, 0x2007, 0x2008,
                0x2009, 0x200A, 0x2028, 0x2029, 0x202F, 0x205F, 0x3000, 0xFEFF])"

definition trimStart :: "jsstring \<Rightarrow> jsstring" where
  "trimStart s = dropWhile isWhiteSpace s"

definition trimEnd :: "jsstring \<Rightarrow> jsstring" where
  "trimEnd s = rev (dropWhile isWhiteSpace (rev s))"

definition trim :: "jsstring \<Rightarrow> jsstring" where
  "trim s = trimEnd (trimStart s)"

subsection \<open>Query history\<close>

record QueryHistoryItem =
  h_id :: string
  query :: jsstring
  timestamp :: nat
  h_error :: "string option"

text \<open>\<^verbatim>\<open>Array.prototype.findIndex\<close>; \<open>None\<close> stands for the result \<open>-1\<close>.\<close>

fun findIndex :: "('a \<Rightarrow> bool) \<Rightarrow> 'a list \<Rightarrow> nat option" where
  "findIndex p [] = None"
| "findIndex p (x # xs) =
     (if p x then Some 0 else map_option Suc (findIndex p xs))"

text \<open>\<^verbatim>\<open>xs.filter((_, idx) => idx !== i)\<close>\<close>

definition filterIndexNot :: "nat \<Rightarrow> 'a list \<Rightarrow> 'a list" where
  "filterIndexNot i xs = map snd (filter (\<lambda>(idx, _). idx \<noteq> i) (enumerate 0 xs))"

text \<open>
  \<^verbatim>\<open>updateHistory(currentHistory, query, errorMsg?)\<close>. The fresh id and the clock
  reading are the arguments \<open>uid\<close> and \<open>now\<close>. An absent \<^verbatim>\<open>errorMsg\<close> is
  \<open>None\<close>; the spread \<^verbatim>\<open>...(errorMsg ? { error: errorMsg } : {})\<close> tests the
  message for truthiness, so the empty string gives an item without an error field.
\<close>

definition newItem :: "string \<Rightarrow> nat \<Rightarrow> jsstring \<Rightarrow> string option \<Rightarrow> QueryHistoryItem" where
  "newItem uid now q errorMsg =
     \<lparr> h_id = uid, query = q, timestamp = now,
       h_error = (case errorMsg of
                    None \<Rightarrow> None
                  | Some m \<Rightarrow> if m = [] then None else Some m) \<rparr>"

definition updateHistory ::
  "string \<Rightarrow> nat \<Rightarrow> QueryHistoryItem list \<Rightarrow> jsstring \<Rightarrow> string option \<Rightarrow> QueryHistoryItem list" where
  "updateHistory uid now currentHistory q errorMsg =
     (let item = newItem uid now q errorMsg;
          existingIndex = findIndex (\<lambda>it. query it = q) currentHistory;
          newHistory = (case existingIndex of
                          Some i \<Rightarrow> item # filterIndexNot i currentHistory
                        | None \<Rightarrow> item # currentHistory)
      in take 15 newHistory)"

text \<open>
  The ledger states of the store: the initial state and \<^verbatim>\<open>clearHistory\<close> give the
  empty ledger, and \<^verbatim>\<open>executeQuery\<close> replaces the ledger by \<open>updateHistory\<close> of
  it. The clock does not run backwards: a new reading is no earlier than the readings
  already recorded.
\<close>

inductive ledger :: "QueryHistoryItem list \<Rightarrow> bool" where
  ledger_empty: "ledger []"
| ledger_record:
    "ledger h \<Longrightarrow> list_all (\<lambda>it. timestamp it \<le> now) h
       \<Longrightarrow> ledger (updateHistory uid now h q errorMsg)"

definition mostRecentFirst :: "QueryHistoryItem list \<Rightarrow> bool" where
  "mostRecentFirst h = sorted_wrt (\<lambda>a b. timestamp b \<le> timestamp a) h"

definition entriesFor :: "jsstring \<Rightarrow> QueryHistoryItem list \<Rightarrow> QueryHistoryItem list" where
  "entriesFor q h = filter (\<lambda>it. query it = q) h"

subsection \<open>Store state\<close>

datatype scope = WASM | External

datatype authMode = AuthNone | AuthPassword | AuthApiKey

text \<open>\<^verbatim>\<open>ConnectionProvider\<close> and \<^verbatim>\<open>CurrentConnection\<close> have the same fields.\<close>

record ConnectionProvider =
  cp_id :: string
  cp_name :: string
  cp_scope :: scope
  cp_host :: "string option"
  cp_port :: "int option"
  cp_user :: "string option"
  cp_password :: "string option"
  cp_database :: "string option"
  cp_authMode :: "authMode option"

type_synonym CurrentConnection = ConnectionProvider

record ConnectionList =
  connections :: "ConnectionProvider list"

record ColumnInfo =
  col_name :: string
  col_type :: string
  nullable :: bool

record TableInfo =
  tbl_name :: string
  schema :: string
  tbl_columns :: "ColumnInfo list"
  tbl_rowCount :: int
  createdAt :: string

record DatabaseInfo =
  db_name :: string
  tables :: "TableInfo list"

text \<open>
  A cell value (\<open>VObject\<close> is an array or an object other than a date, by an
  identifier), and a row object \<^verbatim>\<open>Record<string, unknown>\<close> as the list of its own
  properties in the order of their creation.
\<close>

datatype jsval =
  VUndefined | VNull | VBool bool | VNum int | VStr string | VDate int | VObject nat

type_synonym jsobject = "(string \<times> jsval) list"

record QueryResult =
  columns :: "string list"
  columnTypes :: "string list"
  data :: "jsobject list"
  rowCount :: int
  r_error :: "string option"

datatype EditorTabType = Sql | Home

datatype TabContent = Text string | TableRef "string option" "string option"

record EditorTab =
  tab_id :: string
  title :: string
  tab_type :: EditorTabType
  content :: TabContent
  result :: "QueryResult option"

text \<open>An opaque engine object (\<^verbatim>\<open>AsyncDuckDB\<close>, \<^verbatim>\<open>AsyncDuckDBConnection\<close>).\<close>

datatype handle = Handle nat

record DuckStoreState =
  db :: "handle option"
  connection :: "handle option"
  isInitialized :: bool
  currentDatabase :: string
  currentConnection :: "CurrentConnection option"
  connectionList :: ConnectionList
  databases :: "DatabaseInfo list"
  queryHistory :: "QueryHistoryItem list"
  isExecuting :: bool
  tabs :: "EditorTab list"
  activeTabId :: "string option"
  isLoading :: bool
  error :: "string option"
  isLoadingDbTablesFetch :: bool
  isLoadingExternalConnection :: bool

definition homeTab :: EditorTab where
  "homeTab = \<lparr> tab_id = ''home'', title = ''Home'', tab_type = Home, content = Text [],
               result = None \<rparr>"

definition wasmProvider :: ConnectionProvider where
  "wasmProvider = \<lparr> cp_id = ''WASM'', cp_name = ''WASM'', cp_scope = WASM, cp_host = None,
                    cp_port = None, cp_user = None, cp_password = None, cp_database = None,
                    cp_authMode = None \<rparr>"

definition initialState :: DuckStoreState where
  "initialState =
     \<lparr> db = None, connection = None, isInitialized = False, currentDatabase = ''memory'',
       currentConnection = None, connectionList = \<lparr> connections = [wasmProvider] \<rparr>,
       databases = [], queryHistory = [], isExecuting = False, tabs = [homeTab],
       activeTabId = Some ''home'', isLoading = False, error = None,
       isLoadingDbTablesFetch = True, isLoadingExternalConnection = False \<rparr>"

subsection \<open>Tabs\<close>

text \<open>\<^verbatim>\<open>s || null\<close> for a string \<open>s\<close>: the empty string is falsy.\<close>

definition orNull :: "string \<Rightarrow> string option" where
  "orNull s = (if s = [] then None else Some s)"

definition freshTab :: "string \<Rightarrow> EditorTab" where
  "freshTab uid = \<lparr> tab_id = uid, title = ''Query 1'', tab_type = Sql, content = Text [],
                    result = None \<rparr>"

text \<open>\<^verbatim>\<open>closeTab(tabId)\<close>; \<open>uid\<close> is what \<^verbatim>\<open>crypto.randomUUID()\<close> returns.\<close>

definition closeTab :: "string \<Rightarrow> string \<Rightarrow> DuckStoreState \<Rightarrow> DuckStoreState" where
  "closeTab uid tabId state =
     (let updatedTabs = filter (\<lambda>tab. tab_id tab \<noteq> tabId) (tabs state) in
      if length updatedTabs = 0
      then state\<lparr> tabs := [freshTab uid], activeTabId := Some uid \<rparr>
      else state\<lparr> tabs := updatedTabs,
                  activeTabId :=
                    (if activeTabId state = Some tabId
                     then (case updatedTabs of [] \<Rightarrow> None | t # _ \<Rightarrow> orNull (tab_id t))
                     else activeTabId state) \<rparr>)"

text \<open>
  \<^verbatim>\<open>createTab(type, content, title)\<close>; \<open>newTitle = None\<close> is a title that is not a
  string. The other tab actions follow.
\<close>

definition createTab ::
  "string \<Rightarrow> EditorTabType \<Rightarrow> TabContent \<Rightarrow> string option \<Rightarrow> DuckStoreState \<Rightarrow> DuckStoreState" where
  "createTab uid ty c newTitle state =
     (let newTab = \<lparr> tab_id = uid,
                       title = (case newTitle of Some t \<Rightarrow> t | None \<Rightarrow> ''Untitled Query''),
                       tab_type = ty, content = c, result = None \<rparr>
      in state\<lparr> tabs := tabs state @ [newTab], activeTabId := Some (tab_id newTab) \<rparr>)"

definition setActiveTab :: "string \<Rightarrow> DuckStoreState \<Rightarrow> DuckStoreState" where
  "setActiveTab tabId state = state\<lparr> activeTabId := Some tabId \<rparr>"

definition updateTabQuery :: "string \<Rightarrow> string \<Rightarrow> DuckStoreState \<Rightarrow> DuckStoreState" where
  "updateTabQuery tabId newQuery state =
     state\<lparr> tabs := map (\<lambda>tab. if tab_id tab = tabId \<and> tab_type tab = Sql
                                then tab\<lparr> content := Text newQuery \<rparr> else tab) (tabs state) \<rparr>"

definition updateTabTitle :: "string \<Rightarrow> string \<Rightarrow> DuckStoreState \<Rightarrow> DuckStoreState" where
  "updateTabTitle tabId newTitle state =
     state\<lparr> tabs := map (\<lambda>tab. if tab_id tab = tabId then tab\<lparr> title := newTitle \<rparr> else tab)
                     (tabs state) \<rparr>"

definition closeAllTabs :: "DuckStoreState \<Rightarrow> DuckStoreState" where
  "closeAllTabs state =
     state\<lparr> tabs := filter (\<lambda>tab. tab_type tab = Home) (tabs state),
            activeTabId := Some ''home'' \<rparr>"

text \<open>
  \<^verbatim>\<open>Array.prototype.splice(start, ...)\<close> first clamps \<open>start\<close>: a negative start
  counts from the end, and the result lies in \<open>0 .. len\<close>.
\<close>

definition relativeStart :: "int \<Rightarrow> nat \<Rightarrow> nat" where
  "relativeStart start len =
     (if start < 0 then nat (max (int len + start) 0) else min (nat start) len)"

text \<open>\<^verbatim>\<open>xs.splice(start, 1)\<close>: the removed elements and the array that is left.\<close>

definition spliceDelete1 :: "int \<Rightarrow> 'a list \<Rightarrow> 'a list \<times> 'a list" where
  "spliceDelete1 start xs =
     (let s = relativeStart start (length xs)
      in (take 1 (drop s xs), take s xs @ drop (Suc s) xs))"

text \<open>\<^verbatim>\<open>xs.splice(start, 0, x)\<close>\<close>

definition spliceInsert :: "int \<Rightarrow> 'a \<Rightarrow> 'a list \<Rightarrow> 'a list" where
  "spliceInsert start x xs =
     (let s = relativeStart start (length xs) in take s xs @ x # drop s xs)"

text \<open>
  \<^verbatim>\<open>moveTab(oldIndex, newIndex)\<close>, as the new value of \<^verbatim>\<open>tabs\<close>; no other field
  of the state changes. The destructuring \<^verbatim>\<open>const [movedTab] = ...\<close> gives
  \<^verbatim>\<open>undefined\<close> when nothing was removed, and the second splice inserts it all the
  same, so an element of the result is \<open>None\<close> (undefined) or a tab. The function
  has no branch that throws.
\<close>

definition moveTab :: "int \<Rightarrow> int \<Rightarrow> 'a list \<Rightarrow> 'a option list" where
  "moveTab oldIndex newIndex stateTabs =
     (let newTabs = map Some stateTabs;
          (removed, rest) = spliceDelete1 oldIndex newTabs;
          movedTab = (case removed of [] \<Rightarrow> None | m # _ \<Rightarrow> m)
      in spliceInsert newIndex movedTab rest)"

subsection \<open>Connection registry\<close>

definition updateConnection :: "ConnectionProvider \<Rightarrow> DuckStoreState \<Rightarrow> DuckStoreState" where
  "updateConnection conn state =
     state\<lparr> connectionList :=
       \<lparr> connections =
           map (\<lambda>c. if cp_id c = cp_id conn then conn else c)
             (connections (connectionList state)) \<rparr> \<rparr>"

definition deleteConnection :: "string \<Rightarrow> DuckStoreState \<Rightarrow> DuckStoreState" where
  "deleteConnection i state =
     state\<lparr> connectionList :=
       \<lparr> connections = filter (\<lambda>c. cp_id c \<noteq> i) (connections (connectionList state)) \<rparr> \<rparr>"

text \<open>
  The guards of the connections page: the edit and the delete button of a row are
  \<^verbatim>\<open>disabled={connection.id === "WASM"}\<close>.
\<close>

definition editDisabled :: "ConnectionProvider \<Rightarrow> bool" where
  "editDisabled c = (cp_id c = ''WASM'')"

definition deleteDisabled :: "ConnectionProvider \<Rightarrow> bool" where
  "deleteDisabled c = (cp_id c = ''WASM'')"

text \<open>\<^verbatim>\<open>getConnection\<close> of the store: \<^verbatim>\<open>connections.find((c) => c.id === connectionId)\<close>.\<close>

definition getConnection :: "string \<Rightarrow> DuckStoreState \<Rightarrow> ConnectionProvider option" where
  "getConnection connectionId state =
     find (\<lambda>c. cp_id c = connectionId) (connections (connectionList state))"

text \<open>
  What the page does for the row of the descriptor \<open>c\<close>. A disabled button does
  nothing. The delete button opens the dialog whose confirmation calls
  \<^verbatim>\<open>deleteConnection(connection.id)\<close>. The edit button calls
  \<^verbatim>\<open>onEdit(connection.id)\<close>, which stores the id of the row and opens the form
  if \<^verbatim>\<open>getConnection\<close> finds a descriptor; submitting the form calls
  \<^verbatim>\<open>updateConnection({...values, id: editingConnectionId, port})\<close> unless the
  stored id is empty (\<^verbatim>\<open>handleUpdateConnection\<close>). \<open>v\<close> stands for the form
  values with the port parsed.
\<close>

definition pageDelete :: "ConnectionProvider \<Rightarrow> DuckStoreState \<Rightarrow> DuckStoreState" where
  "pageDelete c state = (if deleteDisabled c then state else deleteConnection (cp_id c) state)"

definition pageEdit ::
  "ConnectionProvider \<Rightarrow> ConnectionProvider \<Rightarrow> DuckStoreState \<Rightarrow> DuckStoreState" where
  "pageEdit c v state =
     (if editDisabled c \<or> getConnection (cp_id c) state = None \<or> cp_id c = [] then state
      else updateConnection (v\<lparr> cp_id := cp_id c \<rparr>) state)"

text \<open>The descriptors that carry the reserved id.\<close>

definition embedded :: "DuckStoreState \<Rightarrow> ConnectionProvider list" where
  "embedded state = filter (\<lambda>c. cp_id c = ''WASM'') (connections (connectionList state))"

text \<open>A registry with the embedded descriptor and one remote descriptor.\<close>

definition remoteProvider :: ConnectionProvider where
  "remoteProvider =
     \<lparr> cp_id = ''abc'', cp_name = ''remote'', cp_scope = External,
       cp_host = Some ''http://localhost'', cp_port = Some 8123, cp_user = Some ''default'',
       cp_password = None, cp_database = None, cp_authMode = None \<rparr>"

definition twoConnections :: DuckStoreState where
  "twoConnections =
     initialState\<lparr> connectionList := \<lparr> connections = [wasmProvider, remoteProvider] \<rparr> \<rparr>"

subsection \<open>Teardown\<close>

text \<open>
  \<^verbatim>\<open>cleanup()\<close>. \<open>closeResult\<close> and \<open>terminateResult\<close> say what
  \<^verbatim>\<open>connection.close()\<close> and \<^verbatim>\<open>db.terminate()\<close> do when they are called:
  \<open>None\<close> is a normal return, \<open>Some t\<close> throws \<open>t\<close>. There is no
  \<^verbatim>\<open>catch\<close>: the \<^verbatim>\<open>finally\<close> block resets the state and the thrown value, if
  any, leaves \<^verbatim>\<open>cleanup\<close> (the first component of the result).
\<close>

definition cleanup ::
  "thrown option \<Rightarrow> thrown option \<Rightarrow> DuckStoreState \<Rightarrow> thrown option \<times> DuckStoreState" where
  "cleanup closeResult terminateResult state =
     (let closed = (case connection state of None \<Rightarrow> None | Some _ \<Rightarrow> closeResult);
          released = (case closed of
                        Some t \<Rightarrow> Some t
                      | None \<Rightarrow> (case db state of None \<Rightarrow> None | Some _ \<Rightarrow> terminateResult))
      in (released,
          state\<lparr> db := None, connection := None, isInitialized := False, databases := [],
                 currentDatabase := ''memory'', error := None, queryHistory := [],
                 tabs := [homeTab], activeTabId := Some ''home'',
                 currentConnection := None \<rparr>))"

subsection \<open>Result normalisation\<close>

text \<open>
  Property access on an ordinary object. The object is its own properties and the flag
  \<open>plain\<close>: \<^verbatim>\<open>Object.prototype\<close> is in its prototype chain, as for \<^verbatim>\<open>{}\<close>.
  \<^verbatim>\<open>obj[k] = v\<close> adds or overwrites the own property \<open>k\<close>, with one exception of
  the language: on a plain object without an own property \<^verbatim>\<open>__proto__\<close> that key
  is the prototype accessor of \<^verbatim>\<open>Object.prototype\<close>, and assigning to it creates no
  own property. The setter ignores a primitive value, takes an object as the new
  prototype (whose chain again ends in \<^verbatim>\<open>Object.prototype\<close>), and for
  \<^verbatim>\<open>null\<close> removes the prototype, after which the object is not plain.
\<close>

definition objGet :: "jsobject \<Rightarrow> string \<Rightarrow> jsval" where
  "objGet obj k = (case map_of obj k of None \<Rightarrow> VUndefined | Some v \<Rightarrow> v)"

definition assign :: "string \<Rightarrow> jsval \<Rightarrow> bool \<times> jsobject \<Rightarrow> bool \<times> jsobject" where
  "assign k v obj =
     (case obj of (plain, props) \<Rightarrow>
        if k = ''__proto__'' \<and> plain \<and> map_of props k = None
        then (v \<noteq> VNull, props)
        else (plain, AList.update k v props))"

text \<open>\<^verbatim>\<open>obj[k] = v\<close> on a plain object, as its own properties afterwards.\<close>

definition objSet :: "string \<Rightarrow> jsval \<Rightarrow> jsobject \<Rightarrow> jsobject" where
  "objSet k v obj = snd (assign k v (True, obj))"

text \<open>
  \<^verbatim>\<open>Object.keys(obj)\<close>: the names that are array indices (canonical decimal numbers
  below \<open>2\<^sup>3\<^sup>2 - 1\<close>) in ascending order, then the other names in the order of
  their creation.
\<close>

definition digitValue :: "char \<Rightarrow> nat option" where
  "digitValue c = map_of (zip ''0123456789'' [0, 1, 2, 3, 4, 5, 6, 7, 8, 9]) c"

definition arrayIndex :: "string \<Rightarrow> nat option" where
  "arrayIndex s =
     (if s = [] \<or> \<not> list_all (\<lambda>c. digitValue c \<noteq> None) s \<or> (hd s = CHR ''0'' \<and> 1 < length s)
      then None
      else (let n = foldl (\<lambda>a c. 10 * a + (case digitValue c of Some d \<Rightarrow> d | None \<Rightarrow> 0)) 0 s
            in if n < 4294967295 then Some n else None))"

definition keys :: "jsobject \<Rightarrow> string list" where
  "keys obj =
     (let names = map fst obj
      in sort_key (\<lambda>k. case arrayIndex k of Some n \<Rightarrow> n | None \<Rightarrow> 0)
           (filter (\<lambda>k. arrayIndex k \<noteq> None) names)
         @ filter (\<lambda>k. arrayIndex k = None) names)"

text \<open>\<^verbatim>\<open>row[index]\<close> on an array: \<^verbatim>\<open>undefined\<close> past the end.\<close>

definition at :: "jsval list \<Rightarrow> nat \<Rightarrow> jsval" where
  "at row index = (if index < length row then row ! index else VUndefined)"

text \<open>
  What \<^verbatim>\<open>JSON.parse\<close> returns for a response of the remote endpoint: \<open>None\<close>
  is \<^verbatim>\<open>null\<close>, and any other value is seen through the properties the code reads,
  \<^verbatim>\<open>{meta: [{name, type}], data: [[...]], rows}\<close>. \<open>e_meta\<close> and \<open>e_data\<close>
  are \<open>None\<close> when the property is missing, falsy or not an array, which is what the
  guard of \<^verbatim>\<open>rawResultToJSON\<close> tests. The entries of \<^verbatim>\<open>meta\<close> are objects with
  a string \<^verbatim>\<open>name\<close> and \<^verbatim>\<open>type\<close> and the elements of \<^verbatim>\<open>data\<close> are
  arrays: other shapes are not modelled.
\<close>

record MetaField =
  m_name :: string
  m_type :: string

record Envelope =
  e_meta :: "MetaField list option"
  e_data :: "jsval list list option"
  e_rows :: "int option"

text \<open>The row object built by \<^verbatim>\<open>columns.forEach((col, index) => ...)\<close>.\<close>

definition rowObject :: "string list \<Rightarrow> jsval list \<Rightarrow> jsobject" where
  "rowObject cols row =
     snd (foldl (\<lambda>obj (index, col). assign col (at row index) obj) (True, [])
            (enumerate 0 cols))"

text \<open>
  The message of the \<^verbatim>\<open>TypeError\<close> of \<^verbatim>\<open>parsed.meta\<close> for \<^verbatim>\<open>null\<close>, in
  the wording of V8.
\<close>

definition nullAccessMessage :: string where
  "nullAccessMessage =
     ''Cannot read properties of null (reading '' @ [CHR 0x27] @ ''meta'' @ [CHR 0x27] @ '')''"

text \<open>
  \<^verbatim>\<open>rawResultToJSON(rawResult)\<close>; \<open>parse\<close> is \<^verbatim>\<open>JSON.parse\<close>. Whatever is thrown
  inside is caught and thrown again as an \<^verbatim>\<open>Error\<close> with a prefixed message.
  \<^verbatim>\<open>parsed.rows || data.length\<close> takes the length when \<^verbatim>\<open>rows\<close> is absent or 0.
\<close>

definition rawResultToJSON ::
  "(string \<Rightarrow> thrown + Envelope option) \<Rightarrow> string \<Rightarrow> thrown + QueryResult" where
  "rawResultToJSON parse rawResult =
     (let attempt =
        (case parse rawResult of
           Inl t \<Rightarrow> Inl t
         | Inr None \<Rightarrow> Inl (JsError nullAccessMessage)
         | Inr (Some parsed) \<Rightarrow>
             (case (e_meta parsed, e_data parsed) of
                (Some pmeta, Some pdata) \<Rightarrow>
                  (let cols = map m_name pmeta;
                       colTypes = map m_type pmeta;
                       rs = map (rowObject cols) pdata
                   in Inr \<lparr> columns = cols, columnTypes = colTypes, data = rs,
                            rowCount = (case e_rows parsed of
                                          None \<Rightarrow> int (length rs)
                                        | Some n \<Rightarrow> if n = 0 then int (length rs) else n),
                            r_error = None \<rparr>)
              | _ \<Rightarrow> Inl (JsError
                  ''Invalid raw result format: meta or data are missing or have the wrong format'')))
      in case attempt of
           Inl t \<Rightarrow> Inl (JsError (''Failed to parse raw result: '' @ errorMessage t))
         | Inr r \<Rightarrow> Inr r)"

text \<open>
  The result of the embedded engine: \<^verbatim>\<open>result.schema.fields\<close> (each with its name and
  \<^verbatim>\<open>type.toString()\<close>), \<^verbatim>\<open>row.toJSON()\<close> of every row of
  \<^verbatim>\<open>result.toArray()\<close>, and \<^verbatim>\<open>result.numRows\<close>.
\<close>

record Field =
  f_name :: string
  f_type :: string

record ArrowResult =
  schema_fields :: "Field list"
  rowsJSON :: "jsobject list"
  numRows :: int

text \<open>
  The body of \<^verbatim>\<open>result.schema.fields.forEach\<close> for one field of one row.
  \<open>localeDate v\<close> is \<^verbatim>\<open>new Date(v).toLocaleDateString()\<close> and \<open>mkDate v\<close> is
  \<^verbatim>\<open>new Date(v)\<close>; what they throw is caught and logged, and the row is left as it
  is. The two type tests of the source exclude each other.
\<close>

definition convertField ::
  "(jsval \<Rightarrow> thrown + string) \<Rightarrow> (jsval \<Rightarrow> thrown + int) \<Rightarrow> jsobject \<Rightarrow> Field \<Rightarrow> jsobject" where
  "convertField localeDate mkDate jsonRow field =
     (let col = f_name field; ty = f_type field; v = objGet jsonRow col in
      if v = VNull \<or> v = VUndefined then jsonRow
      else if ty = ''Date32<DAY>''
      then (case localeDate v of Inl _ \<Rightarrow> jsonRow | Inr s \<Rightarrow> objSet col (VStr s) jsonRow)
      else if ty = ''Date64<MILLISECOND>'' \<or> ty = ''Timestamp<MICROSECOND>''
      then (case mkDate v of Inl _ \<Rightarrow> jsonRow | Inr d \<Rightarrow> objSet col (VDate d) jsonRow)
      else jsonRow)"

definition resultToJSON ::
  "(jsval \<Rightarrow> thrown + string) \<Rightarrow> (jsval \<Rightarrow> thrown + int) \<Rightarrow> ArrowResult \<Rightarrow> QueryResult" where
  "resultToJSON localeDate mkDate res =
     \<lparr> columns = map f_name (schema_fields res),
       columnTypes = map f_type (schema_fields res),
       data = map (\<lambda>jsonRow. foldl (convertField localeDate mkDate) jsonRow (schema_fields res))
                (rowsJSON res),
       rowCount = numRows res,
       r_error = None \<rparr>"

subsection \<open>The backends\<close>

record HttpRequest =
  url_host :: "string option"
  url_port :: "int option"
  auth_user :: "string option"
  auth_password :: "string option"
  body :: jsstring

text \<open>
  \<open>status\<close> is the status code as the template literal prints it;
  \<open>responseText\<close> is what \<^verbatim>\<open>await response.text()\<close> gives.
\<close>

record HttpResponse =
  ok :: bool
  status :: string
  responseText :: "thrown + string"

text \<open>
  What the store awaits from outside: \<^verbatim>\<open>fetch\<close> (a POST built from the connection),
  \<^verbatim>\<open>JSON.parse\<close>, \<^verbatim>\<open>connection.query\<close> of the embedded engine, the outcome of
  \<^verbatim>\<open>fetchWasmDatabases\<close>, and the two date conversions.
\<close>

record Backend =
  fetch :: "HttpRequest \<Rightarrow> thrown + HttpResponse"
  parseJSON :: "string \<Rightarrow> thrown + Envelope option"
  wasmQuery :: "jsstring \<Rightarrow> thrown + ArrowResult"
  fetchWasmDatabases :: "thrown + DatabaseInfo list"
  toLocaleDateString :: "jsval \<Rightarrow> thrown + string"
  newDate :: "jsval \<Rightarrow> thrown + int"

text \<open>The observable calls an action makes, in order.\<close>

datatype event =
    Fetch HttpRequest
  | WasmQuery jsstring
  | SchemaRefresh
  | ToastSuccess string
  | ToastError string

definition fetchCalls :: "event list \<Rightarrow> event list" where
  "fetchCalls evs = filter (\<lambda>e. case e of Fetch _ \<Rightarrow> True | _ \<Rightarrow> False) evs"

definition requestOf :: "ConnectionProvider \<Rightarrow> jsstring \<Rightarrow> HttpRequest" where
  "requestOf c b = \<lparr> url_host = cp_host c, url_port = cp_port c, auth_user = cp_user c,
                    auth_password = cp_password c, body = b \<rparr>"

definition validateConnection :: "handle option \<Rightarrow> thrown + handle" where
  "validateConnection c =
     (case c of None \<Rightarrow> Inl (JsError ''Database connection is not valid'') | Some h \<Rightarrow> Inr h)"

text \<open>\<^verbatim>\<open>!connection.host || !connection.port\<close>: absent, empty or 0.\<close>

definition missingHostOrPort :: "ConnectionProvider \<Rightarrow> bool" where
  "missingHostOrPort c =
     ((case cp_host c of None \<Rightarrow> True | Some h \<Rightarrow> h = [])
      \<or> (case cp_port c of None \<Rightarrow> True | Some p \<Rightarrow> p = 0))"

definition executeExternalQuery ::
  "Backend \<Rightarrow> jsstring \<Rightarrow> CurrentConnection \<Rightarrow> event list \<times> (thrown + QueryResult)" where
  "executeExternalQuery w q c =
     (if missingHostOrPort c
      then ([], Inl (JsError ''Host and port must be defined for external connections.''))
      else
        (let req = requestOf c q in
         case fetch w req of
           Inl t \<Rightarrow> ([Fetch req], Inl t)
         | Inr response \<Rightarrow>
             if \<not> ok response
             then (case responseText response of
                     Inl t \<Rightarrow> ([Fetch req], Inl t)
                   | Inr errorText \<Rightarrow>
                       ([Fetch req],
                        Inl (JsError (''HTTP error! Status: '' @ status response
                                      @ '', Message: '' @ errorText))))
             else (case responseText response of
                     Inl t \<Rightarrow> ([Fetch req], Inl t)
                   | Inr rawResult \<Rightarrow>
                       ([Fetch req], rawResultToJSON (parseJSON w) rawResult))))"

definition testExternalConnection ::
  "Backend \<Rightarrow> ConnectionProvider \<Rightarrow> event list \<times> thrown option" where
  "testExternalConnection w c =
     (let req = requestOf c (js ''SELECT 1'') in
      case fetch w req of
        Inl t \<Rightarrow> ([Fetch req], Some t)
      | Inr response \<Rightarrow>
          if \<not> ok response
          then (case responseText response of
                  Inl t \<Rightarrow> ([Fetch req], Some t)
                | Inr errorText \<Rightarrow>
                    ([Fetch req],
                     Some (JsError (''Connection test failed! Status: '' @ status response
                                    @ '', Message: '' @ errorText))))
          else ([Fetch req], None))"

text \<open>
  \<^verbatim>\<open>addConnection(connection)\<close>. The name test, the probe and the append are in one
  \<^verbatim>\<open>try\<close>; the \<^verbatim>\<open>catch\<close> stores the message and shows it, and the action
  itself returns normally either way.
\<close>

definition addConnection ::
  "Backend \<Rightarrow> ConnectionProvider \<Rightarrow> DuckStoreState \<Rightarrow> DuckStoreState \<times> event list" where
  "addConnection w conn state =
     (let s1 = state\<lparr> isLoadingExternalConnection := True, error := None \<rparr>;
          (evs, failure) =
            (if find (\<lambda>c. cp_name c = cp_name conn) (connections (connectionList s1)) \<noteq> None
             then ([], Some (JsError (''A connection with the name '' @ [CHR 0x22] @ cp_name conn
                                      @ [CHR 0x22] @ '' already exists.'')))
             else if cp_scope conn = External then testExternalConnection w conn
             else ([], None))
      in case failure of
           None \<Rightarrow>
             (s1\<lparr> connectionList :=
                   \<lparr> connections = connections (connectionList s1) @ [conn] \<rparr> \<rparr>,
              evs @ [ToastSuccess (''Connection '' @ [CHR 0x22] @ cp_name conn @ [CHR 0x22]
                                   @ '' added successfully!'')])
         | Some t \<Rightarrow>
             (s1\<lparr> error := Some (''Failed to add connection: '' @ errorMessage t) \<rparr>,
              evs @ [ToastError (''Failed to add connection: '' @ errorMessage t)]))"

subsection \<open>Schema refresh and query execution\<close>

definition isExternal :: "CurrentConnection option \<Rightarrow> bool" where
  "isExternal cc = (case cc of None \<Rightarrow> False | Some c \<Rightarrow> cp_scope c = External)"

text \<open>
  \<^verbatim>\<open>fetchDatabasesAndTablesInfo()\<close>: it catches what it throws, so it always returns.
  Each call is logged as one \<open>SchemaRefresh\<close>.
\<close>

definition fetchDatabasesAndTablesInfo ::
  "Backend \<Rightarrow> DuckStoreState \<Rightarrow> DuckStoreState \<times> event list" where
  "fetchDatabasesAndTablesInfo w state =
     (let s1 = state\<lparr> isLoadingDbTablesFetch := True, error := None \<rparr>;
          outcome =
            (if isExternal (currentConnection state) then Inr []
             else (case validateConnection (connection state) of
                     Inl t \<Rightarrow> Inl t
                   | Inr _ \<Rightarrow> fetchWasmDatabases w));
          s2 = (case outcome of
                  Inr dbs \<Rightarrow> s1\<lparr> databases := dbs, error := None \<rparr>
                | Inl t \<Rightarrow> s1\<lparr> error := Some (''Failed to load schema: '' @ errorMessage t) \<rparr>)
      in (s2\<lparr> isLoadingDbTablesFetch := False \<rparr>, [SchemaRefresh]))"

text \<open>
  \<^verbatim>\<open>/^(CREATE|ALTER|DROP|ATTACH)/i.test(s)\<close>. With the \<^verbatim>\<open>i\<close> flag and without
  the \<^verbatim>\<open>u\<close> flag two code units match when their canonical forms are equal; the
  canonical form of \<^verbatim>\<open>a\<close> to \<^verbatim>\<open>z\<close> is the upper-case letter, and a code unit
  from 128 on is never mapped to an ASCII letter, so for the letters of the pattern the
  canonical form is \<open>toUpperAscii\<close>.
\<close>

definition toUpperAscii :: "codeUnit \<Rightarrow> codeUnit" where
  "toUpperAscii u = (if 0x61 \<le> u \<and> u \<le> 0x7A then u - 0x20 else u)"

definition startsWithIgnoreCase :: "jsstring \<Rightarrow> jsstring \<Rightarrow> bool" where
  "startsWithIgnoreCase kw s = (map toUpperAscii (take (length kw) s) = kw)"

definition ddlKeywords :: "jsstring list" where
  "ddlKeywords = [js ''CREATE'', js ''ALTER'', js ''DROP'', js ''ATTACH'']"

definition ddlPattern :: "jsstring \<Rightarrow> bool" where
  "ddlPattern s = list_ex (\<lambda>kw. startsWithIgnoreCase kw s) ddlKeywords"

text \<open>The embedded branch of \<^verbatim>\<open>executeQuery\<close>.\<close>

definition runWasmQuery ::
  "Backend \<Rightarrow> jsstring \<Rightarrow> DuckStoreState \<Rightarrow> event list \<times> (thrown + QueryResult)" where
  "runWasmQuery w q state =
     (case validateConnection (connection state) of
        Inl t \<Rightarrow> ([], Inl t)
      | Inr _ \<Rightarrow>
          (case wasmQuery w q of
             Inl t \<Rightarrow> ([WasmQuery q], Inl t)
           | Inr res \<Rightarrow>
               ([WasmQuery q], Inr (resultToJSON (toLocaleDateString w) (newDate w) res))))"

text \<open>
  The first statement of the \<^verbatim>\<open>try\<close> block of \<^verbatim>\<open>executeQuery\<close>, the backend
  call, routed by \<^verbatim>\<open>currentConnection?.scope === "External"\<close>.
\<close>

definition runQuery ::
  "Backend \<Rightarrow> jsstring \<Rightarrow> DuckStoreState \<Rightarrow> event list \<times> (thrown + QueryResult)" where
  "runQuery w q state =
     (case currentConnection state of
        Some c \<Rightarrow>
          if cp_scope c = External then executeExternalQuery w q c else runWasmQuery w q state
      | None \<Rightarrow> runWasmQuery w q state)"

text \<open>\<^verbatim>\<open>tabId ? ... : ...\<close> for an optional string: absent and empty are falsy.\<close>

definition truthy :: "string option \<Rightarrow> bool" where
  "truthy s = (case s of None \<Rightarrow> False | Some x \<Rightarrow> x \<noteq> [])"

definition setTabResult :: "string option \<Rightarrow> QueryResult \<Rightarrow> EditorTab list \<Rightarrow> EditorTab list" where
  "setTabResult tabId r ts =
     map (\<lambda>tab. if Some (tab_id tab) = tabId then tab\<lparr> result := Some r \<rparr> else tab) ts"

definition errorResult :: "string \<Rightarrow> QueryResult" where
  "errorResult errorMsg =
     \<lparr> columns = [], columnTypes = [], data = [], rowCount = 0, r_error = Some errorMsg \<rparr>"

text \<open>
  \<^verbatim>\<open>executeQuery(query, tabId?)\<close>. \<open>Inr\<close> is a call that returns: what the promise
  resolves to (\<open>None\<close> is \<^verbatim>\<open>undefined\<close>), the new state and the calls made;
  \<open>Inl\<close> would be a value thrown out of the action. The only statement of the
  \<^verbatim>\<open>try\<close> block that can throw is the backend call, and the \<^verbatim>\<open>catch\<close> block
  turns what it throws into state. \<open>uid\<close> and \<open>now\<close> are the id and the clock
  reading of the one history item the call creates.
\<close>

definition executeQuery ::
  "Backend \<Rightarrow> string \<Rightarrow> nat \<Rightarrow> jsstring \<Rightarrow> string option \<Rightarrow> DuckStoreState
     \<Rightarrow> thrown + (QueryResult option \<times> DuckStoreState \<times> event list)" where
  "executeQuery w uid now q tabId state =
     (let s1 = state\<lparr> isExecuting := True, error := None \<rparr>;
          (evs, outcome) = runQuery w q state
      in case outcome of
           Inr queryResult \<Rightarrow>
             (let s2 = s1\<lparr> queryHistory := updateHistory uid now (queryHistory s1) q None,
                           tabs := setTabResult tabId queryResult (tabs s1),
                           isExecuting := False \<rparr>;
                  (s3, evs') = (if ddlPattern (trim q)
                                then fetchDatabasesAndTablesInfo w s2
                                else (s2, []))
              in Inr (if truthy tabId then None else Some queryResult, s3, evs @ evs'))
         | Inl t \<Rightarrow>
             (let errorMsg = errorMessage t in
              Inr (None,
                   s1\<lparr> queryHistory := updateHistory uid now (queryHistory s1) q (Some errorMsg),
                        tabs := setTabResult tabId (errorResult errorMsg) (tabs s1),
                        isExecuting := False,
                        error := Some errorMsg \<rparr>,
                   evs)))"

text \<open>
  The claim's condition for a schema refresh, in its own words: the text is some
  whitespace followed by a text that begins with one of the four keywords, letter case
  ignored. Two texts are equal with letter case ignored when they are equal after
  \<^verbatim>\<open>A\<close> to \<^verbatim>\<open>Z\<close> are replaced by \<^verbatim>\<open>a\<close> to \<^verbatim>\<open>z\<close>.
\<close>

definition toLowerAscii :: "codeUnit \<Rightarrow> codeUnit" where
  "toLowerAscii u = (if 0x41 \<le> u \<and> u \<le> 0x5A then u + 0x20 else u)"

definition equalIgnoringCase :: "jsstring \<Rightarrow> jsstring \<Rightarrow> bool" where
  "equalIgnoringCase a b = (map toLowerAscii a = map toLowerAscii b)"

definition ddlStatement :: "jsstring \<Rightarrow> bool" where
  "ddlStatement q =
     (\<exists>ws rest. q = ws @ rest \<and> list_all isWhiteSpace ws
        \<and> list_ex (\<lambda>kw. length kw \<le> length rest
                          \<and> equalIgnoringCase (take (length kw) rest) kw)
             [js ''CREATE'', js ''ALTER'', js ''DROP'', js ''ATTACH''])"

text \<open>
  The states of the store as far as its tabs go: the initial state, and what the actions
  that write \<^verbatim>\<open>tabs\<close> make of such a state. \<open>tabs_frame\<close> stands for the actions
  that leave the tab list as it is. \<^verbatim>\<open>crypto.randomUUID()\<close> returns a UUID, which
  is not the empty string. A \<open>moveTab\<close> that puts \<^verbatim>\<open>undefined\<close> into the list
  leaves these states: after it, \<^verbatim>\<open>tab.id\<close> throws in every action that reads the
  tabs.
\<close>

inductive tabsReachable :: "DuckStoreState \<Rightarrow> bool" where
  tabs_initial: "tabsReachable initialState"
| tabs_frame: "tabsReachable st \<Longrightarrow> tabs st' = tabs st \<Longrightarrow> tabsReachable st'"
| tabs_createTab: "tabsReachable st \<Longrightarrow> uid \<noteq> [] \<Longrightarrow> tabsReachable (createTab uid ty c newTitle st)"
| tabs_closeTab: "tabsReachable st \<Longrightarrow> uid \<noteq> [] \<Longrightarrow> tabsReachable (closeTab uid tabId st)"
| tabs_updateTabQuery: "tabsReachable st \<Longrightarrow> tabsReachable (updateTabQuery tabId newQuery st)"
| tabs_updateTabTitle: "tabsReachable st \<Longrightarrow> tabsReachable (updateTabTitle tabId newTitle st)"
| tabs_closeAllTabs: "tabsReachable st \<Longrightarrow> tabsReachable (closeAllTabs st)"
| tabs_moveTab:
    "tabsReachable st \<Longrightarrow> moveTab oldIndex newIndex (tabs st) = map Some ts
       \<Longrightarrow> tabsReachable (st\<lparr> tabs := ts \<rparr>)"
| tabs_executeQuery:
    "tabsReachable st \<Longrightarrow> executeQuery w uid now q tabId st = Inr (ret, st', evs)
       \<Longrightarrow> tabsReachable st'"
| tabs_cleanup: "tabsReachable st \<Longrightarrow> tabsReachable (snd (cleanup closeResult terminateResult st))"
| tabs_persist:
    "tabsReachable st
       \<Longrightarrow> tabsReachable (st\<lparr> tabs := map (\<lambda>tab. tab\<lparr> result := None \<rparr>) (tabs st) \<rparr>)"

text \<open>An environment for the examples: the embedded engine answers \<open>r\<close>.\<close>

definition exampleBackend :: "thrown + ArrowResult \<Rightarrow> thrown + DatabaseInfo list \<Rightarrow> Backend" where
  "exampleBackend r dbs =
     \<lparr> fetch = (\<lambda>_. Inl (JsError ''Failed to fetch'')),
       parseJSON = (\<lambda>_. Inl (JsError ''Unexpected end of JSON input'')),
       wasmQuery = (\<lambda>_. r),
       fetchWasmDatabases = dbs,
       toLocaleDateString = (\<lambda>_. Inr ''1/1/1970''),
       newDate = (\<lambda>_. Inr 0) \<rparr>"

definition connectedState :: DuckStoreState where
  "connectedState =
     initialState\<lparr> db := Some (Handle 0), connection := Some (Handle 1),
                   isInitialized := True, currentConnection := Some wasmProvider \<rparr>"

definition emptyResult :: ArrowResult where
  "emptyResult = \<lparr> schema_fields = [], rowsJSON = [], numRows = 0 \<rparr>"

text \<open>
  A response of the remote endpoint with a column named \<^verbatim>\<open>__proto__\<close>, as for
  \<^verbatim>\<open>SELECT 1 AS "__proto__", 2 AS n\<close>, and what \<^verbatim>\<open>JSON.parse\<close> makes of it.
\<close>

definition quoted :: "string \<Rightarrow> string" where
  "quoted s = CHR 0x22 # s @ [CHR 0x22]"

definition protoResponse :: string where
  "protoResponse =
     ''{'' @ quoted ''meta'' @ '':[{'' @ quoted ''name'' @ '':'' @ quoted ''__proto__'' @ '',''
       @ quoted ''type'' @ '':'' @ quoted ''UInt8'' @ ''},{'' @ quoted ''name'' @ '':''
       @ quoted ''n'' @ '','' @ quoted ''type'' @ '':'' @ quoted ''UInt8'' @ ''}],''
       @ quoted ''data'' @ '':[[1,2]],'' @ quoted ''rows'' @ '':1}''"

definition protoEnvelope :: Envelope where
  "protoEnvelope =
     \<lparr> e_meta = Some [\<lparr> m_name = ''__proto__'', m_type = ''UInt8'' \<rparr>,
                      \<lparr> m_name = ''n'', m_type = ''UInt8'' \<rparr>],
       e_data = Some [[VNum 1, VNum 2]],
       e_rows = Some 1 \<rparr>"

subsection \<open>Import pipeline\<close>

definition MAX_CONCURRENT_UPLOADS :: nat where
  "MAX_CONCURRENT_UPLOADS = 3"

datatype ImportStatus = Pending | Uploading | Processing | Success | Failed

text \<open>
  \<^verbatim>\<open>FileImportState\<close>; the status \<^verbatim>\<open>"error"\<close> is \<open>Failed\<close>. An entry made by
  spreading a missing one has no \<^verbatim>\<open>fileName\<close> (\<open>None\<close>).
\<close>

record FileImportState =
  fi_fileName :: "string option"
  fi_status :: ImportStatus
  fi_error :: "string option"

record UploadFile =
  file_name :: string
  file_size :: nat

record UploadError =
  ue_message :: string
  ue_file :: "string option"

text \<open>
  The state of the \<^verbatim>\<open>FileImporter\<close> component; the two
  \<^verbatim>\<open>Record<string, ...>\<close> are association lists.
\<close>

record ImporterState =
  files :: "UploadFile list"
  tableNames :: "(string \<times> jsstring) list"
  importStates :: "(string \<times> FileImportState) list"
  errors :: "UploadError list"
  isUploading :: bool

text \<open>
  \<^verbatim>\<open>tableNameSchema.parse(v)\<close>: a string, trimmed, of at least one character, all of
  them letters, digits or underscores. \<open>Inl\<close> is the message of the first issue.
\<close>

definition tableNameChar :: "codeUnit \<Rightarrow> bool" where
  "tableNameChar u =
     (u \<in> set (js ''abcdefghijklmnopqrstuvwxyzABCDEFGHIJKLMNOPQRSTUVWXYZ0123456789_''))"

definition tableNameSchema :: "jsstring option \<Rightarrow> string + jsstring" where
  "tableNameSchema v =
     (case v of
        None \<Rightarrow> Inl ''Required''
      | Some s \<Rightarrow>
          (let t = trim s in
           if length t < 1 then Inl ''Table name cannot be empty''
           else if \<not> list_all tableNameChar t
           then Inl ''Table name can only contain letters, numbers, and underscores''
           else Inr t))"

text \<open>
  \<^verbatim>\<open>updateImportState(fileName, partial)\<close>, as the updater it passes to
  \<^verbatim>\<open>setImportStates\<close>. The partial state always has a status; \<open>err = None\<close> is a
  partial state without \<^verbatim>\<open>error\<close>.
\<close>

definition updateImportState ::
  "string \<Rightarrow> ImportStatus \<Rightarrow> string option
     \<Rightarrow> (string \<times> FileImportState) list \<Rightarrow> (string \<times> FileImportState) list" where
  "updateImportState fileName st err prev =
     (let old = (case map_of prev fileName of
                   Some s \<Rightarrow> s
                 | None \<Rightarrow> \<lparr> fi_fileName = None, fi_status = st, fi_error = None \<rparr>)
      in AList.update fileName
           (old\<lparr> fi_status := st,
                 fi_error := (case err of None \<Rightarrow> fi_error old | Some e \<Rightarrow> Some e) \<rparr>)
           prev)"

text \<open>
  What calling the \<^verbatim>\<open>async (file) => ...\<close> function of \<^verbatim>\<open>handleFileUpload\<close> does
  before it returns its promise: the function runs up to its first \<^verbatim>\<open>await\<close>.
  \<open>snap\<close> is the state of the render the handler closes over (it reads
  \<^verbatim>\<open>importStates\<close> and \<^verbatim>\<open>tableNames\<close> there); \<open>cur\<close> is the state the queued
  updaters are applied to. The result says whether the call is now suspended at
  \<^verbatim>\<open>await file.arrayBuffer()\<close>, the first step of the import of the file.
\<close>

definition startJob :: "ImporterState \<Rightarrow> UploadFile \<Rightarrow> ImporterState \<Rightarrow> ImporterState \<times> bool" where
  "startJob snap file cur =
     (if map_option fi_status (map_of (importStates snap) (file_name file)) = Some Success
      then (cur, False)
      else
        (case tableNameSchema (map_of (tableNames snap) (file_name file)) of
           Inl msg \<Rightarrow>
             (cur\<lparr> errors := errors cur @ [\<lparr> ue_message = msg,
                                             ue_file = Some (file_name file) \<rparr>],
                   importStates := updateImportState (file_name file) Failed (Some msg)
                                     (importStates cur) \<rparr>,
              False)
         | Inr _ \<Rightarrow>
             (cur\<lparr> importStates := updateImportState (file_name file) Processing None
                                     (importStates cur) \<rparr>,
              True)))"

text \<open>
  \<^verbatim>\<open>files.map(async (file) => ...)\<close>: the calls are made one after the other, each up
  to its first \<^verbatim>\<open>await\<close>, before \<^verbatim>\<open>map\<close> returns the promises. The second
  component lists, per file, whether its promise is still pending.
\<close>

fun startJobs ::
  "ImporterState \<Rightarrow> UploadFile list \<Rightarrow> ImporterState \<Rightarrow> ImporterState \<times> (string \<times> bool) list" where
  "startJobs snap [] cur = (cur, [])"
| "startJobs snap (file # rest) cur =
     (let (cur1, pending) = startJob snap file cur;
          (cur2, promises) = startJobs snap rest cur1
      in (cur2, (file_name file, pending) # promises))"

text \<open>
  The loop \<^verbatim>\<open>for (let i = 0; i < xs.length; i += k) ... xs.slice(i, i + k)\<close>.
\<close>

definition slices :: "nat \<Rightarrow> 'a list \<Rightarrow> 'a list list" where
  "slices k xs = map (\<lambda>i. take k (drop i xs)) (filter (\<lambda>i. i mod k = 0) [0..<length xs])"

text \<open>
  \<^verbatim>\<open>handleFileUpload\<close> up to its \<^verbatim>\<open>await Promise.all(concurrencyQueue)\<close>: the
  state, and the promises grouped into the chunks that are passed to
  \<^verbatim>\<open>Promise.all\<close>.
\<close>

definition handleFileUpload ::
  "ImporterState \<Rightarrow> ImporterState \<times> (string \<times> bool) list list" where
  "handleFileUpload st =
     (let (cur, uploadPromises) =
            startJobs st (files st) (st\<lparr> isUploading := True, errors := [] \<rparr>)
      in (cur, slices MAX_CONCURRENT_UPLOADS uploadPromises))"

text \<open>The jobs in the state \<^verbatim>\<open>uploading\<close> or \<^verbatim>\<open>processing\<close>.\<close>

definition inFlight :: "ImporterState \<Rightarrow> string list" where
  "inFlight st =
     map fst (filter (\<lambda>(_, s). fi_status s = Uploading \<or> fi_status s = Processing)
                (importStates st))"

text \<open>A batch of \<open>n\<close> submitted csv files, all pending, with their default table names.\<close>

definition batchNames :: "string list" where
  "batchNames = [''a'', ''b'', ''c'', ''d'', ''e'', ''f'', ''g'', ''h'', ''i'', ''j'']"

definition submitted :: "string list \<Rightarrow> ImporterState" where
  "submitted names =
     \<lparr> files = map (\<lambda>n. \<lparr> file_name = n @ ''.csv'', file_size = 1024 \<rparr>) names,
       tableNames = map (\<lambda>n. (n @ ''.csv'', js n)) names,
       importStates = map (\<lambda>n. (n @ ''.csv'',
                                 \<lparr> fi_fileName = Some (n @ ''.csv''), fi_status = Pending,
                                   fi_error = None \<rparr>)) names,
       errors = [],
       isUploading = False \<rparr>"


section \<open>Properties\<close>

subsection \<open>Query history\<close>

lemma filterIndexNot_Nil: "filterIndexNot i [] = []"
  by (simp add: filterIndexNot_def)

lemma enumerate_filter_shift:
  "map snd (filter (\<lambda>(idx, _). idx \<noteq> Suc i) (enumerate (Suc n) xs))
     = map snd (filter (\<lambda>(idx, _). idx \<noteq> i) (enumerate n xs))"
  by (induction xs arbitrary: n) auto

lemma enumerate_filter_all:
  "i < n \<Longrightarrow> map snd (filter (\<lambda>(idx, _). idx \<noteq> i) (enumerate n xs)) = xs"
  by (induction xs arbitrary: n) auto

lemma filterIndexNot_0: "filterIndexNot 0 (x # xs) = xs"
  using enumerate_filter_all [of 0 "Suc 0" xs] by (simp add: filterIndexNot_def)

lemma filterIndexNot_Suc: "filterIndexNot (Suc i) (x # xs) = x # filterIndexNot i xs"
  by (simp add: filterIndexNot_def enumerate_filter_shift)

lemma findIndex_None: "findIndex p xs = None \<longleftrightarrow> (\<forall>x \<in> set xs. \<not> p x)"
  by (induction xs) auto

lemma filterIndexNot_subset: "set (filterIndexNot i xs) \<subseteq> set xs"
  by (auto simp: filterIndexNot_def in_set_enumerate_eq)

lemma remove_first_is_filter:
  "distinct (map f xs) \<Longrightarrow>
     (case findIndex (\<lambda>it. f it = q) xs of Some i \<Rightarrow> filterIndexNot i xs | None \<Rightarrow> xs)
       = filter (\<lambda>it. f it \<noteq> q) xs"
proof (induction xs)
  case Nil
  then show ?case by simp
next
  case (Cons x xs)
  show ?case
  proof (cases "f x = q")
    case True
    from Cons.prems have "f x \<notin> f ` set xs" by simp
    with True have "\<forall>y \<in> set xs. f y \<noteq> q" by (metis imageI)
    then have "filter (\<lambda>it. f it \<noteq> q) xs = xs" by (simp add: filter_id_conv)
    with True show ?thesis by (simp add: filterIndexNot_0)
  next
    case False
    from Cons.prems have "distinct (map f xs)" by simp
    from Cons.IH [OF this] False show ?thesis
      by (cases "findIndex (\<lambda>it. f it = q) xs") (simp_all add: filterIndexNot_Suc)
  qed
qed

lemma updateHistory_filter:
  "distinct (map query h) \<Longrightarrow>
     updateHistory uid now h q e = take 15 (newItem uid now q e # filter (\<lambda>it. query it \<noteq> q) h)"
  using remove_first_is_filter [of query h q]
  by (cases "findIndex (\<lambda>it. query it = q) h") (simp_all add: updateHistory_def)

lemma updateHistory_length: "length (updateHistory uid now h q e) \<le> 15"
  by (simp add: updateHistory_def Let_def)

lemma query_newItem: "query (newItem uid now q e) = q"
  by (simp add: newItem_def)

lemma timestamp_newItem: "timestamp (newItem uid now q e) = now"
  by (simp add: newItem_def)

lemma updateHistory_hd: "hd (updateHistory uid now h q e) = newItem uid now q e"
  by (cases "findIndex (\<lambda>it. query it = q) h") (simp_all add: updateHistory_def)

lemma updateHistory_distinct:
  assumes "distinct (map query h)"
  shows "distinct (map query (updateHistory uid now h q e))"
proof -
  have "distinct (map query (newItem uid now q e # filter (\<lambda>it. query it \<noteq> q) h))"
    using assms by (auto simp: query_newItem distinct_map_filter)
  then have "distinct (take 15 (map query (newItem uid now q e # filter (\<lambda>it. query it \<noteq> q) h)))"
    by (rule distinct_take)
  then show ?thesis
    by (simp only: updateHistory_filter [OF assms] take_map)
qed

lemma updateHistory_entriesFor:
  assumes "distinct (map query h)"
  shows "entriesFor q (updateHistory uid now h q e) = [newItem uid now q e]"
proof -
  have "filter (\<lambda>it. query it = q) (filter (\<lambda>it. query it \<noteq> q) h) = []"
    by (simp add: filter_empty_conv)
  then have "filter (\<lambda>it. query it = q) (take 14 (filter (\<lambda>it. query it \<noteq> q) h)) = []"
    by (metis filter_empty_conv in_set_takeD)
  then show ?thesis
    by (simp add: updateHistory_filter [OF assms] entriesFor_def query_newItem)
qed

lemma updateHistory_mostRecentFirst:
  assumes "distinct (map query h)" and "mostRecentFirst h"
    and "list_all (\<lambda>it. timestamp it \<le> now) h"
  shows "mostRecentFirst (updateHistory uid now h q e)"
proof -
  let ?P = "\<lambda>a b. timestamp b \<le> timestamp a"
  from assms(2) have "sorted_wrt ?P (filter (\<lambda>it. query it \<noteq> q) h)"
    by (simp add: mostRecentFirst_def sorted_wrt_filter)
  moreover from assms(3) have "\<forall>b \<in> set (filter (\<lambda>it. query it \<noteq> q) h). timestamp b \<le> now"
    by (simp add: list_all_iff)
  ultimately have "sorted_wrt ?P (newItem uid now q e # filter (\<lambda>it. query it \<noteq> q) h)"
    by (simp add: timestamp_newItem)
  then have "sorted_wrt ?P (take 15 (newItem uid now q e # filter (\<lambda>it. query it \<noteq> q) h))"
    by (rule sorted_wrt_take)
  then show ?thesis
    by (simp only: updateHistory_filter [OF assms(1)] mostRecentFirst_def)
qed

lemma updateHistory_bounded:
  assumes "list_all (\<lambda>it. timestamp it \<le> now) h"
  shows "list_all (\<lambda>it. timestamp it \<le> now) (updateHistory uid now h q e)"
proof -
  have "set (updateHistory uid now h q e) \<subseteq> insert (newItem uid now q e) (set h)"
    using filterIndexNot_subset [of _ h]
    by (cases "findIndex (\<lambda>it. query it = q) h")
       (auto simp: updateHistory_def dest!: in_set_takeD)
  with assms show ?thesis
    by (auto simp: list_all_iff timestamp_newItem)
qed

lemma ledger_invariant:
  "ledger h \<Longrightarrow> distinct (map query h) \<and> mostRecentFirst h \<and> length h \<le> 15"
proof (induction rule: ledger.induct)
  case ledger_empty
  show ?case by (simp add: mostRecentFirst_def)
next
  case (ledger_record h now uid q errorMsg)
  then show ?case
    by (simp add: updateHistory_distinct updateHistory_mostRecentFirst updateHistory_length)
qed

text \<open>
  C4. Recording a query text in a ledger state of the store (at a clock reading that is
  no earlier than the recorded ones) gives a ledger of at most 15 entries, ordered from
  the most recent to the oldest, with pairwise distinct query texts; the new entry is the
  first one and it is the only entry for the recorded text, also when the text was
  present before.
\<close>

theorem updateHistory_ledger:
  assumes "ledger h" and "list_all (\<lambda>it. timestamp it \<le> now) h"
  shows "length (updateHistory uid now h q e) \<le> 15
       \<and> mostRecentFirst (updateHistory uid now h q e)
       \<and> distinct (map query (updateHistory uid now h q e))
       \<and> hd (updateHistory uid now h q e) = newItem uid now q e
       \<and> entriesFor q (updateHistory uid now h q e) = [newItem uid now q e]"
  using ledger_invariant [OF assms(1)] assms(2)
  by (simp add: updateHistory_length updateHistory_mostRecentFirst updateHistory_distinct
      updateHistory_hd updateHistory_entriesFor)

theorem updateHistory_ledger_witness:
  "ledger (updateHistory ''b'' 20 (updateHistory ''a'' 10 [] (js ''SELECT 1'') None) (js ''SELECT 2'') None)
   \<and> updateHistory ''c'' 30
        (updateHistory ''b'' 20 (updateHistory ''a'' 10 [] (js ''SELECT 1'') None) (js ''SELECT 2'') None)
        (js ''SELECT 1'') None
      = [\<lparr>h_id = ''c'', query = (js ''SELECT 1''), timestamp = 30, h_error = None\<rparr>,
         \<lparr>h_id = ''b'', query = (js ''SELECT 2''), timestamp = 20, h_error = None\<rparr>]
   \<and> entriesFor (js ''SELECT 1'') (updateHistory ''c'' 30
        (updateHistory ''b'' 20 (updateHistory ''a'' 10 [] (js ''SELECT 1'') None) (js ''SELECT 2'') None)
        (js ''SELECT 1'') None)
      = [newItem ''c'' 30 (js ''SELECT 1'') None]"
proof -
  let ?h1 = "updateHistory ''a'' 10 [] (js ''SELECT 1'') None"
  let ?h2 = "updateHistory ''b'' 20 ?h1 (js ''SELECT 2'') None"
  have h1: "?h1 = [\<lparr>h_id = ''a'', query = (js ''SELECT 1''), timestamp = 10, h_error = None\<rparr>]"
    by (simp add: updateHistory_def newItem_def)
  have h2: "?h2 = [\<lparr>h_id = ''b'', query = (js ''SELECT 2''), timestamp = 20, h_error = None\<rparr>,
                   \<lparr>h_id = ''a'', query = (js ''SELECT 1''), timestamp = 10, h_error = None\<rparr>]"
    by (simp add: h1 updateHistory_def newItem_def js_def)
  have l1: "ledger ?h1"
    by (rule ledger_record [OF ledger_empty]) simp
  have l2: "ledger ?h2"
    by (rule ledger_record [OF l1]) (simp add: h1)
  have b: "list_all (\<lambda>it. timestamp it \<le> 30) ?h2"
    by (simp add: h2)
  have v: "updateHistory ''c'' 30 ?h2 (js ''SELECT 1'') None
      = [\<lparr>h_id = ''c'', query = (js ''SELECT 1''), timestamp = 30, h_error = None\<rparr>,
         \<lparr>h_id = ''b'', query = (js ''SELECT 2''), timestamp = 20, h_error = None\<rparr>]"
    by (simp add: h2 updateHistory_def newItem_def filterIndexNot_def js_def)
  have e: "entriesFor (js ''SELECT 1'') (updateHistory ''c'' 30 ?h2 (js ''SELECT 1'') None)
      = [newItem ''c'' 30 (js ''SELECT 1'') None]"
    using updateHistory_ledger [OF l2 b, of "''c''" "js ''SELECT 1''" None] by blast
  show ?thesis by (intro conjI l2 v e)
qed


subsection \<open>Tabs\<close>

lemma closeTab_tabs:
  "tabs (closeTab uid tabId st) =
     (if filter (\<lambda>t. tab_id t \<noteq> tabId) (tabs st) = [] then [freshTab uid]
      else filter (\<lambda>t. tab_id t \<noteq> tabId) (tabs st))"
  by (simp add: closeTab_def Let_def)

lemma set_spliceInsert: "set (spliceInsert start x xs) = insert x (set xs)"
proof -
  have "set (take n xs @ x # drop n xs) = insert x (set (take n xs @ drop n xs))" for n
    by (simp only: set_append list.set) blast
  then show ?thesis
    by (simp add: spliceInsert_def Let_def del: set_append)
qed

lemma moveTab_elements:
  assumes "moveTab oldIndex newIndex xs = map Some ys"
  shows "set ys \<subseteq> set xs"
proof
  fix y assume "y \<in> set ys"
  then have "Some y \<in> set (moveTab oldIndex newIndex xs)"
    by (simp add: assms)
  moreover have "set (moveTab oldIndex newIndex xs) \<subseteq> insert None (set (map Some xs))"
  proof -
    let ?s = "relativeStart oldIndex (length (map Some xs))"
    have r: "set (take ?s (map Some xs) @ drop (Suc ?s) (map Some xs)) \<subseteq> set (map Some xs)"
      using set_take_subset [of ?s "map Some xs"] set_drop_subset [of "Suc ?s" "map Some xs"]
      by (simp only: set_append) blast
    have m: "(case take 1 (drop ?s (map Some xs)) of [] \<Rightarrow> None | m # _ \<Rightarrow> m)
               \<in> insert None (set (map Some xs))"
    proof (cases "take 1 (drop ?s (map Some xs))")
      case Nil
      then show ?thesis by simp
    next
      case (Cons m ms)
      then have "m \<in> set (take 1 (drop ?s (map Some xs)))" by simp
      then have "m \<in> set (map Some xs)"
        by (meson in_set_dropD in_set_takeD)
      with Cons show ?thesis by simp
    qed
    have g: "A \<subseteq> B \<Longrightarrow> a \<in> insert None B \<Longrightarrow> insert a A \<subseteq> insert None B"
      for a :: "'a option" and A B
      by auto
    show ?thesis
      by (simp only: moveTab_def spliceDelete1_def Let_def prod.case set_spliceInsert)
         (rule g [OF r m])
  qed
  ultimately show "y \<in> set xs" by auto
qed

lemma setTabResult_ids: "map tab_id (setTabResult tabId r ts) = map tab_id ts"
  by (induction ts) (simp_all add: setTabResult_def)

lemma fetchDatabasesAndTablesInfo_tabs: "tabs (fst (fetchDatabasesAndTablesInfo w st)) = tabs st"
  by (simp add: fetchDatabasesAndTablesInfo_def Let_def split: sum.splits)

lemma executeQuery_tab_ids:
  assumes "executeQuery w uid now q tabId st = Inr (ret, st', evs)"
  shows "map tab_id (tabs st') = map tab_id (tabs st)"
proof -
  obtain es outcome where r: "runQuery w q st = (es, outcome)"
    by (cases "runQuery w q st")
  show ?thesis
  proof (cases outcome)
    case (Inl t)
    with assms r show ?thesis
      by (auto simp: executeQuery_def Let_def setTabResult_ids)
  next
    case (Inr qr)
    let ?s2 = "st\<lparr> isExecuting := True, error := None,
                   queryHistory := updateHistory uid now (queryHistory st) q None,
                   tabs := setTabResult tabId qr (tabs st), isExecuting := False \<rparr>"
    obtain s3 e3 where f: "fetchDatabasesAndTablesInfo w ?s2 = (s3, e3)"
      by (cases "fetchDatabasesAndTablesInfo w ?s2")
    with fetchDatabasesAndTablesInfo_tabs [of w ?s2] have "tabs s3 = setTabResult tabId qr (tabs st)"
      by simp
    with assms r Inr f show ?thesis
      by (auto simp: executeQuery_def Let_def setTabResult_ids split: if_splits)
  qed
qed

text \<open>Every tab of a state of the store has a non-empty id.\<close>

lemma tabsReachable_ids: "tabsReachable st \<Longrightarrow> \<forall>t \<in> set (tabs st). tab_id t \<noteq> []"
proof (induction rule: tabsReachable.induct)
  case tabs_initial
  show ?case by (simp add: initialState_def homeTab_def)
next
  case (tabs_frame st st')
  then show ?case by simp
next
  case (tabs_createTab st uid ty c newTitle)
  then show ?case by (auto simp: createTab_def Let_def)
next
  case (tabs_closeTab st uid tabId)
  then show ?case by (auto simp: closeTab_tabs freshTab_def)
next
  case (tabs_updateTabQuery st tabId newQuery)
  then show ?case by (auto simp: updateTabQuery_def)
next
  case (tabs_updateTabTitle st tabId newTitle)
  then show ?case by (auto simp: updateTabTitle_def)
next
  case (tabs_closeAllTabs st)
  then show ?case by (auto simp: closeAllTabs_def)
next
  case (tabs_moveTab st oldIndex newIndex ts)
  from moveTab_elements [OF tabs_moveTab.hyps(2)] tabs_moveTab.IH show ?case by auto
next
  case (tabs_executeQuery st w uid now q tabId ret st' evs)
  from executeQuery_tab_ids [OF tabs_executeQuery.hyps(2)]
  have "tab_id ` set (tabs st') = tab_id ` set (tabs st)"
    by (metis list.set_map)
  with tabs_executeQuery.IH show ?case
    by (metis (no_types, lifting) imageE imageI)
next
  case (tabs_cleanup st closeResult terminateResult)
  show ?case by (simp add: cleanup_def Let_def homeTab_def)
next
  case (tabs_persist st)
  then show ?case by auto
qed

text \<open>
  C5. For every state of the store, after \<open>closeTab\<close> the tab list has at least one
  tab. If removing the tab leaves nothing, the list is one fresh query tab (type
  \<^verbatim>\<open>sql\<close>, title \<open>Query 1\<close>, the new id) and that tab is the active one.
  Otherwise the list is the old one without the closed tab; if the closed tab was the
  active one, the first remaining tab is active, and if not, the active tab is unchanged.
\<close>

theorem closeTab_never_empty:
  assumes "tabsReachable st"
  shows "1 \<le> length (tabs (closeTab uid tabId st))
       \<and> (filter (\<lambda>t. tab_id t \<noteq> tabId) (tabs st) = [] \<longrightarrow>
            tabs (closeTab uid tabId st)
              = [\<lparr> tab_id = uid, title = ''Query 1'', tab_type = Sql, content = Text [],
                   result = None \<rparr>]
            \<and> activeTabId (closeTab uid tabId st) = Some uid)
       \<and> (filter (\<lambda>t. tab_id t \<noteq> tabId) (tabs st) \<noteq> [] \<longrightarrow>
            tabs (closeTab uid tabId st) = filter (\<lambda>t. tab_id t \<noteq> tabId) (tabs st)
            \<and> (activeTabId st = Some tabId \<longrightarrow>
                 activeTabId (closeTab uid tabId st)
                   = Some (tab_id (hd (filter (\<lambda>t. tab_id t \<noteq> tabId) (tabs st)))))
            \<and> (activeTabId st \<noteq> Some tabId \<longrightarrow>
                 activeTabId (closeTab uid tabId st) = activeTabId st))"
proof -
  let ?u = "filter (\<lambda>t. tab_id t \<noteq> tabId) (tabs st)"
  have len: "1 \<le> length (tabs (closeTab uid tabId st))"
    by (cases ?u) (simp_all add: closeTab_tabs)
  have empty: "?u = [] \<Longrightarrow> tabs (closeTab uid tabId st)
         = [\<lparr> tab_id = uid, title = ''Query 1'', tab_type = Sql, content = Text [],
              result = None \<rparr>]
       \<and> activeTabId (closeTab uid tabId st) = Some uid"
    by (simp add: closeTab_def Let_def freshTab_def)
  have rest: "tabs (closeTab uid tabId st) = ?u
       \<and> (activeTabId st = Some tabId \<longrightarrow>
             activeTabId (closeTab uid tabId st) = Some (tab_id (hd ?u)))
       \<and> (activeTabId st \<noteq> Some tabId \<longrightarrow>
             activeTabId (closeTab uid tabId st) = activeTabId st)" if ne: "?u \<noteq> []"
  proof -
    from ne obtain t ts where u: "?u = t # ts" by (cases ?u) auto
    then have "t \<in> set (tabs st)" by (metis filter_is_subset list.set_intros(1) subsetD)
    with tabsReachable_ids [OF assms] have "tab_id t \<noteq> []" by simp
    with u show ?thesis by (simp add: closeTab_def orNull_def Let_def)
  qed
  from len empty rest show ?thesis by blast
qed

theorem closeTab_never_empty_witness:
  "tabs (closeTab ''u1'' ''home'' initialState)
     = [\<lparr> tab_id = ''u1'', title = ''Query 1'', tab_type = Sql, content = Text [],
          result = None \<rparr>]
   \<and> activeTabId (closeTab ''u1'' ''home'' initialState) = Some ''u1''
   \<and> tabs (createTab ''u2'' Sql (Text []) None initialState)
       = [homeTab, \<lparr> tab_id = ''u2'', title = ''Untitled Query'', tab_type = Sql,
                     content = Text [], result = None \<rparr>]
   \<and> activeTabId (createTab ''u2'' Sql (Text []) None initialState) = Some ''u2''
   \<and> tabs (closeTab ''u3'' ''u2'' (createTab ''u2'' Sql (Text []) None initialState)) = [homeTab]
   \<and> activeTabId (closeTab ''u3'' ''u2'' (createTab ''u2'' Sql (Text []) None initialState))
       = Some ''home''"
proof -
  let ?st2 = "createTab ''u2'' Sql (Text []) None initialState"
  have r2: "tabsReachable ?st2"
    by (rule tabs_createTab [OF tabs_initial]) simp
  have t2: "tabs ?st2 = [homeTab, \<lparr> tab_id = ''u2'', title = ''Untitled Query'', tab_type = Sql,
                     content = Text [], result = None \<rparr>]"
    and a2: "activeTabId ?st2 = Some ''u2''"
    by (simp_all add: createTab_def initialState_def Let_def)
  have f1: "filter (\<lambda>t. tab_id t \<noteq> ''home'') (tabs initialState) = []"
    by (simp add: initialState_def homeTab_def)
  have f2: "filter (\<lambda>t. tab_id t \<noteq> ''u2'') (tabs ?st2) = [homeTab]"
    by (simp add: t2 homeTab_def)
  from closeTab_never_empty [OF tabs_initial, of "''u1''" "''home''"] f1
  have c1: "tabs (closeTab ''u1'' ''home'' initialState)
     = [\<lparr> tab_id = ''u1'', title = ''Query 1'', tab_type = Sql, content = Text [],
          result = None \<rparr>]
   \<and> activeTabId (closeTab ''u1'' ''home'' initialState) = Some ''u1''"
    by simp
  from closeTab_never_empty [OF r2, of "''u3''" "''u2''"] f2 a2
  have c2: "tabs (closeTab ''u3'' ''u2'' ?st2) = [homeTab]
    \<and> activeTabId (closeTab ''u3'' ''u2'' ?st2) = Some ''home''"
    by (simp add: homeTab_def)
  from c1 c2 t2 a2 show ?thesis by simp
qed

text \<open>Moving a tab between two positions of the list.\<close>

lemma relativeStart_in_range: "0 \<le> i \<Longrightarrow> nat i \<le> n \<Longrightarrow> relativeStart i n = nat i"
  by (simp add: relativeStart_def)

lemma moveTab_in_range_eq:
  assumes "0 \<le> oldIndex" and "oldIndex < int (length xs)"
    and "0 \<le> newIndex" and "newIndex < int (length xs)"
  shows "moveTab oldIndex newIndex xs =
           map Some (take (nat newIndex) (take (nat oldIndex) xs @ drop (Suc (nat oldIndex)) xs)
                     @ xs ! nat oldIndex
                     # drop (nat newIndex) (take (nat oldIndex) xs @ drop (Suc (nat oldIndex)) xs))"
proof -
  let ?o = "nat oldIndex" and ?n = "nat newIndex"
  let ?rest = "take ?o xs @ drop (Suc ?o) xs"
  from assms have o: "?o < length xs" and n: "?n < length xs" by auto
  have so: "relativeStart oldIndex (length (map Some xs)) = ?o"
    using assms(1) o by (simp add: relativeStart_in_range)
  have removed: "take 1 (drop ?o (map Some xs)) = [Some (xs ! ?o)]"
    using o by (simp add: Cons_nth_drop_Suc [symmetric] drop_map)
  have rest: "take ?o (map Some xs) @ drop (Suc ?o) (map Some xs) = map Some ?rest"
    by (simp add: take_map drop_map)
  have del: "spliceDelete1 oldIndex (map Some xs) = ([Some (xs ! ?o)], map Some ?rest)"
    unfolding spliceDelete1_def Let_def so removed rest ..
  have "length ?rest = length xs - 1" using o by simp
  with n have "?n \<le> length (map Some ?rest)" by simp
  with assms(3) have sn: "relativeStart newIndex (length (map Some ?rest)) = ?n"
    by (rule relativeStart_in_range)
  have "spliceInsert newIndex (Some (xs ! ?o)) (map Some ?rest)
          = map Some (take ?n ?rest @ xs ! ?o # drop ?n ?rest)"
    unfolding spliceInsert_def Let_def sn by (simp add: take_map drop_map)
  then show ?thesis
    by (simp add: moveTab_def del)
qed

lemma take_drop_inserted:
  "length as = n \<Longrightarrow> take n (as @ x # bs) @ drop (Suc n) (as @ x # bs) = as @ bs"
  by simp

text \<open>
  C9 (as amended). \<open>moveTab\<close> checks no index and signals no error. For two indices in
  \<open>[0, tabs.length)\<close> its result is the old tabs reordered, none of them undefined: the
  tab that was at \<open>oldIndex\<close> is at \<open>newIndex\<close>, and the other tabs keep their order.
\<close>

theorem moveTab_in_range:
  assumes "0 \<le> oldIndex" and "oldIndex < int (length xs)"
    and "0 \<le> newIndex" and "newIndex < int (length xs)"
  shows "\<exists>ys. moveTab oldIndex newIndex xs = map Some ys
           \<and> length ys = length xs
           \<and> mset ys = mset xs
           \<and> ys ! nat newIndex = xs ! nat oldIndex
           \<and> take (nat newIndex) ys @ drop (Suc (nat newIndex)) ys
               = take (nat oldIndex) xs @ drop (Suc (nat oldIndex)) xs"
proof -
  let ?o = "nat oldIndex" and ?n = "nat newIndex"
  let ?rest = "take ?o xs @ drop (Suc ?o) xs"
  let ?ys = "take ?n ?rest @ xs ! ?o # drop ?n ?rest"
  from assms have o: "?o < length xs" and n: "?n < length xs" by auto
  have lr: "length ?rest = length xs - 1" using o by simp
  with n have nr: "?n \<le> length ?rest" by simp
  have xs: "xs = take ?o xs @ xs ! ?o # drop (Suc ?o) xs"
    using o by (rule id_take_nth_drop)
  have "mset ?ys = mset ?rest + {#xs ! ?o#}"
    by (metis append_take_drop_id mset.simps(2) union_mset_add_mset_right mset_append add.right_neutral)
  also have "\<dots> = mset xs"
    by (subst (3) xs) simp
  finally have m: "mset ?ys = mset xs" .
  from m have l: "length ?ys = length xs" by (rule mset_eq_length)
  have lt: "length (take ?n ?rest) = ?n" using nr by (simp only: length_take min_absorb2)
  have nth: "?ys ! ?n = xs ! ?o"
    using lt by (metis nth_append_length)
  have "take ?n ?ys @ drop (Suc ?n) ?ys = take ?n ?rest @ drop ?n ?rest"
    using lt by (rule take_drop_inserted)
  then have del: "take ?n ?ys @ drop (Suc ?n) ?ys = ?rest"
    by (simp only: append_take_drop_id)
  from moveTab_in_range_eq [OF assms] l m nth del show ?thesis by blast
qed

theorem moveTab_in_range_witness:
  "moveTab 0 1 [homeTab, freshTab ''a'', freshTab ''b'']
     = [Some (freshTab ''a''), Some homeTab, Some (freshTab ''b'')]
   \<and> (\<exists>ys. moveTab 0 1 [homeTab, freshTab ''a'', freshTab ''b''] = map Some ys
           \<and> mset ys = mset [homeTab, freshTab ''a'', freshTab ''b''])"
proof -
  have v: "moveTab 0 1 [homeTab, freshTab ''a'', freshTab ''b'']
     = [Some (freshTab ''a''), Some homeTab, Some (freshTab ''b'')]"
    by (simp add: moveTab_def spliceDelete1_def spliceInsert_def relativeStart_def)
  from moveTab_in_range [of 0 "[homeTab, freshTab ''a'', freshTab ''b'']" 1]
  have "\<exists>ys. moveTab 0 1 [homeTab, freshTab ''a'', freshTab ''b''] = map Some ys
           \<and> mset ys = mset [homeTab, freshTab ''a'', freshTab ''b'']"
    by auto
  with v show ?thesis by blast
qed

text \<open>
  C9 as stated fails: with an index out of range \<open>moveTab\<close> returns normally. An old
  index past the end removes nothing and inserts \<^verbatim>\<open>undefined\<close>; a new index past the
  end, or a negative index, is clamped by \<^verbatim>\<open>splice\<close> and the tabs are reordered.
\<close>

theorem moveTab_out_of_range_counterexample:
  "moveTab 5 0 [homeTab] = [None, Some homeTab]
   \<and> moveTab 0 7 [homeTab, freshTab ''a''] = [Some (freshTab ''a''), Some homeTab]
   \<and> moveTab (-1) 0 [homeTab, freshTab ''a''] = [Some (freshTab ''a''), Some homeTab]"
  by (simp add: moveTab_def spliceDelete1_def spliceInsert_def relativeStart_def)


subsection \<open>Connection registry\<close>

lemma filter_reserved_filter:
  "i \<noteq> w \<Longrightarrow> filter (\<lambda>c. cp_id c = w) (filter (\<lambda>c. cp_id c \<noteq> i) xs) = filter (\<lambda>c. cp_id c = w) xs"
  by (induction xs) auto

lemma filter_reserved_map:
  "cp_id conn \<noteq> w \<Longrightarrow>
     filter (\<lambda>c. cp_id c = w) (map (\<lambda>c. if cp_id c = cp_id conn then conn else c) xs)
       = filter (\<lambda>c. cp_id c = w) xs"
  by (induction xs) auto

text \<open>
  C2 (as amended). \<open>deleteConnection\<close> with an id other than the reserved id
  \<open>WASM\<close>, and \<open>updateConnection\<close> with a descriptor whose id is not the reserved
  one, leave the descriptors that carry the reserved id as they are. The connections
  page makes no other call: whatever row its delete or edit button is used on, the
  descriptors with the reserved id stay as they are, the buttons of the row with that id
  being disabled.
\<close>

theorem registry_keeps_embedded:
  assumes "i \<noteq> ''WASM''" and "cp_id conn \<noteq> ''WASM''"
  shows "embedded (deleteConnection i st) = embedded st
       \<and> embedded (updateConnection conn st) = embedded st
       \<and> embedded (pageDelete c st) = embedded st
       \<and> embedded (pageEdit c v st) = embedded st"
proof -
  have d: "embedded (deleteConnection j st) = embedded st" if "j \<noteq> ''WASM''" for j
    using that
    by (simp add: embedded_def deleteConnection_def filter_reserved_filter del: filter_filter)
  have u: "embedded (updateConnection x st) = embedded st" if "cp_id x \<noteq> ''WASM''" for x
    using that
    by (simp add: embedded_def updateConnection_def filter_reserved_map)
  have pd: "embedded (pageDelete c st) = embedded st"
    by (simp add: pageDelete_def deleteDisabled_def d)
  have pe: "embedded (pageEdit c v st) = embedded st"
    by (simp add: pageEdit_def editDisabled_def u)
  from d [OF assms(1)] u [OF assms(2)] pd pe show ?thesis by simp
qed

theorem registry_keeps_embedded_witness:
  "connections (connectionList (deleteConnection ''abc'' twoConnections)) = [wasmProvider]
   \<and> connections (connectionList
        (updateConnection (remoteProvider\<lparr> cp_name := ''renamed'' \<rparr>) twoConnections))
       = [wasmProvider, remoteProvider\<lparr> cp_name := ''renamed'' \<rparr>]
   \<and> connections (connectionList (pageDelete remoteProvider twoConnections)) = [wasmProvider]
   \<and> pageDelete wasmProvider twoConnections = twoConnections
   \<and> pageEdit wasmProvider (remoteProvider\<lparr> cp_name := ''renamed'' \<rparr>) twoConnections
       = twoConnections
   \<and> connections (connectionList
        (pageEdit remoteProvider (wasmProvider\<lparr> cp_name := ''renamed'' \<rparr>) twoConnections))
       = [wasmProvider, wasmProvider\<lparr> cp_id := ''abc'', cp_name := ''renamed'' \<rparr>]
   \<and> embedded twoConnections = [wasmProvider]
   \<and> embedded (deleteConnection ''abc'' twoConnections) = [wasmProvider]
   \<and> embedded (updateConnection (remoteProvider\<lparr> cp_name := ''renamed'' \<rparr>) twoConnections)
       = [wasmProvider]"
proof -
  have e: "embedded twoConnections = [wasmProvider]"
    by (simp add: embedded_def twoConnections_def initialState_def wasmProvider_def
        remoteProvider_def)
  have i: "''abc'' \<noteq> ''WASM''" by simp
  have c: "cp_id (remoteProvider\<lparr> cp_name := ''renamed'' \<rparr>) \<noteq> ''WASM''"
    by (simp add: remoteProvider_def)
  have v: "connections (connectionList (deleteConnection ''abc'' twoConnections)) = [wasmProvider]
   \<and> connections (connectionList
        (updateConnection (remoteProvider\<lparr> cp_name := ''renamed'' \<rparr>) twoConnections))
       = [wasmProvider, remoteProvider\<lparr> cp_name := ''renamed'' \<rparr>]
   \<and> connections (connectionList (pageDelete remoteProvider twoConnections)) = [wasmProvider]
   \<and> pageDelete wasmProvider twoConnections = twoConnections
   \<and> pageEdit wasmProvider (remoteProvider\<lparr> cp_name := ''renamed'' \<rparr>) twoConnections
       = twoConnections
   \<and> connections (connectionList
        (pageEdit remoteProvider (wasmProvider\<lparr> cp_name := ''renamed'' \<rparr>) twoConnections))
       = [wasmProvider, wasmProvider\<lparr> cp_id := ''abc'', cp_name := ''renamed'' \<rparr>]"
    by (simp add: deleteConnection_def updateConnection_def pageDelete_def pageEdit_def
        deleteDisabled_def editDisabled_def getConnection_def twoConnections_def
        initialState_def wasmProvider_def remoteProvider_def)
  from registry_keeps_embedded [OF i c, of twoConnections] e
  have "embedded (deleteConnection ''abc'' twoConnections) = [wasmProvider]
   \<and> embedded (updateConnection (remoteProvider\<lparr> cp_name := ''renamed'' \<rparr>) twoConnections)
       = [wasmProvider]"
    by simp
  with v e show ?thesis by simp
qed

text \<open>
  C2 as stated fails: the store actions themselves have no guard.
  \<open>deleteConnection\<close> with the reserved id removes the embedded descriptor, and
  \<open>updateConnection\<close> with a descriptor of that id replaces it.
\<close>

theorem registry_embedded_counterexample:
  "embedded initialState = [wasmProvider]
   \<and> connections (connectionList (deleteConnection ''WASM'' initialState)) = []
   \<and> connections (connectionList
        (updateConnection (wasmProvider\<lparr>cp_name := ''edited'', cp_scope := External\<rparr>) initialState))
      = [wasmProvider\<lparr>cp_name := ''edited'', cp_scope := External\<rparr>]"
  by (simp add: embedded_def initialState_def wasmProvider_def deleteConnection_def
      updateConnection_def)

subsection \<open>Teardown\<close>

text \<open>
  C10. Whatever \<^verbatim>\<open>connection.close()\<close> and \<^verbatim>\<open>db.terminate()\<close> do (return or
  throw), the state after \<open>cleanup\<close> has no engine handle and no connection, is not
  initialized, has no databases, no history, the single home tab active, the current
  database \<open>memory\<close>, no current connection and no error; these are the values of
  the initial state, and the five fields \<open>cleanup\<close> does not write
  (\<open>connectionList\<close> and the four progress flags) are the only ones that can differ
  from it. A second \<open>cleanup\<close> right after throws nothing and leaves the state as
  it is.
\<close>

theorem cleanup_resets:
  "(let st' = snd (cleanup closeResult terminateResult st) in
      db st' = None \<and> connection st' = None \<and> isInitialized st' = False
    \<and> databases st' = [] \<and> queryHistory st' = []
    \<and> tabs st' = [homeTab] \<and> activeTabId st' = Some ''home''
    \<and> currentDatabase st' = ''memory'' \<and> currentConnection st' = None \<and> error st' = None
    \<and> st'\<lparr> connectionList := connectionList initialState,
             isExecuting := isExecuting initialState, isLoading := isLoading initialState,
             isLoadingDbTablesFetch := isLoadingDbTablesFetch initialState,
             isLoadingExternalConnection := isLoadingExternalConnection initialState \<rparr>
        = initialState
    \<and> cleanup closeResult2 terminateResult2 st' = (None, st'))"
  by (simp add: cleanup_def initialState_def Let_def)

subsection \<open>Adding a connection\<close>

lemma find_name_Some:
  "\<exists>c \<in> set xs. cp_name c = n \<Longrightarrow> find (\<lambda>c. cp_name c = n) xs \<noteq> None"
  by (auto simp: find_None_iff)

text \<open>
  C6. When the name of the descriptor equals (character by character) the name of a
  descriptor of the registry, \<open>addConnection\<close> fails with the duplicate-name message:
  the message is stored as the error of the state and shown as an error toast, no
  request is sent (no probe, also for an \<open>External\<close> descriptor), and the connection
  list is unchanged.
\<close>

theorem addConnection_duplicate_name:
  assumes "\<exists>c \<in> set (connections (connectionList st)). cp_name c = cp_name conn"
  shows "addConnection w conn st =
           (st\<lparr> isLoadingExternalConnection := True,
                error := Some (''Failed to add connection: A connection with the name ''
                               @ [CHR 0x22] @ cp_name conn @ [CHR 0x22] @ '' already exists.'') \<rparr>,
            [ToastError (''Failed to add connection: A connection with the name ''
                         @ [CHR 0x22] @ cp_name conn @ [CHR 0x22] @ '' already exists.'')])
       \<and> fetchCalls (snd (addConnection w conn st)) = []
       \<and> connectionList (fst (addConnection w conn st)) = connectionList st"
proof -
  from assms have f: "find (\<lambda>c. cp_name c = cp_name conn) (connections (connectionList st)) \<noteq> None"
    by (rule find_name_Some)
  then have eq: "addConnection w conn st =
           (st\<lparr> isLoadingExternalConnection := True,
                error := Some (''Failed to add connection: A connection with the name ''
                               @ [CHR 0x22] @ cp_name conn @ [CHR 0x22] @ '' already exists.'') \<rparr>,
            [ToastError (''Failed to add connection: A connection with the name ''
                         @ [CHR 0x22] @ cp_name conn @ [CHR 0x22] @ '' already exists.'')])"
    by (simp add: addConnection_def errorMessage_def)
  show ?thesis
    by (simp add: eq fetchCalls_def)
qed


theorem addConnection_duplicate_name_witness:
  "snd (addConnection (exampleBackend (Inl NonError) (Inr []))
         (wasmProvider\<lparr> cp_id := ''7'', cp_scope := External, cp_host := Some ''http://h'',
                         cp_port := Some 8123 \<rparr>) initialState)
     = [ToastError (''Failed to add connection: A connection with the name '' @ [CHR 0x22]
                   @ ''WASM'' @ [CHR 0x22] @ '' already exists.'')]
   \<and> connectionList (fst (addConnection (exampleBackend (Inl NonError) (Inr []))
         (wasmProvider\<lparr> cp_id := ''7'', cp_scope := External, cp_host := Some ''http://h'',
                         cp_port := Some 8123 \<rparr>) initialState))
     = connectionList initialState"
proof -
  let ?c = "wasmProvider\<lparr> cp_id := ''7'', cp_scope := External, cp_host := Some ''http://h'',
                         cp_port := Some 8123 \<rparr>"
  have h: "\<exists>c \<in> set (connections (connectionList initialState)). cp_name c = cp_name ?c"
    by (simp add: initialState_def)
  have n: "cp_name ?c = ''WASM''" by (simp add: wasmProvider_def)
  from addConnection_duplicate_name [OF h, of "exampleBackend (Inl NonError) (Inr [])"]
  show ?thesis by (simp add: n)
qed


subsection \<open>Query execution\<close>

text \<open>Trimming at the end does not matter for a keyword at the start.\<close>

lemma toUpperAscii_space: "isWhiteSpace c \<Longrightarrow> toUpperAscii c = c"
  unfolding isWhiteSpace_def toUpperAscii_def by auto

lemma startsWith_Nil: "startsWithIgnoreCase [] s"
  by (simp add: startsWithIgnoreCase_def)

lemma startsWith_Cons_Nil: "\<not> startsWithIgnoreCase (k # ks) []"
  by (simp add: startsWithIgnoreCase_def)

lemma startsWith_Cons_Cons:
  "startsWithIgnoreCase (k # ks) (x # xs) \<longleftrightarrow> toUpperAscii x = k \<and> startsWithIgnoreCase ks xs"
  by (simp add: startsWithIgnoreCase_def)

lemma startsWith_append_spaces:
  "\<forall>c \<in> set t. isWhiteSpace c \<Longrightarrow> \<forall>c \<in> set kw. \<not> isWhiteSpace c
     \<Longrightarrow> startsWithIgnoreCase kw (p @ t) = startsWithIgnoreCase kw p"
proof (induction p arbitrary: kw)
  case Nil
  show ?case
  proof (cases kw)
    case Nil
    then show ?thesis by (simp add: startsWith_Nil)
  next
    case kw: (Cons k ks)
    show ?thesis
    proof (cases t)
      case Nil
      then show ?thesis by simp
    next
      case (Cons c cs)
      with Nil.prems(1) have "isWhiteSpace c" by simp
      then have "toUpperAscii c = c" by (rule toUpperAscii_space)
      moreover from kw Nil.prems(2) have "\<not> isWhiteSpace k" by simp
      ultimately have "toUpperAscii c \<noteq> k" using \<open>isWhiteSpace c\<close> by metis
      with kw Cons show ?thesis
        by (simp add: startsWith_Cons_Cons startsWith_Cons_Nil)
    qed
  qed
next
  case (Cons x xs)
  show ?case
  proof (cases kw)
    case Nil
    then show ?thesis by (simp add: startsWith_Nil)
  next
    case kw: (Cons k ks)
    with Cons.prems have "\<forall>c \<in> set ks. \<not> isWhiteSpace c" by simp
    from Cons.IH [OF Cons.prems(1) this] kw show ?thesis
      by (simp add: startsWith_Cons_Cons)
  qed
qed

lemma trimEnd_decompose: "\<exists>t. s = trimEnd s @ t \<and> (\<forall>c \<in> set t. isWhiteSpace c)"
proof -
  have "rev s = takeWhile isWhiteSpace (rev s) @ dropWhile isWhiteSpace (rev s)" by simp
  then have "s = rev (dropWhile isWhiteSpace (rev s)) @ rev (takeWhile isWhiteSpace (rev s))"
    by (metis rev_append rev_rev_ident)
  moreover have "\<forall>c \<in> set (rev (takeWhile isWhiteSpace (rev s))). isWhiteSpace c"
    by (auto dest: set_takeWhileD)
  ultimately show ?thesis unfolding trimEnd_def by blast
qed

lemma startsWith_trimEnd:
  assumes "\<forall>c \<in> set kw. \<not> isWhiteSpace c"
  shows "startsWithIgnoreCase kw (trimEnd s) = startsWithIgnoreCase kw s"
proof -
  from trimEnd_decompose [of s] obtain t where
    t: "s = trimEnd s @ t" "\<forall>c \<in> set t. isWhiteSpace c" by blast
  from startsWith_append_spaces [OF t(2) assms, of "trimEnd s"] t(1) show ?thesis by simp
qed

lemma keyword_letters:
  "\<forall>kw \<in> set ddlKeywords. kw \<noteq> [] \<and> (\<forall>c \<in> set kw. 0x41 \<le> c \<and> c \<le> 0x5A)"
  by (simp add: ddlKeywords_def js_def)

lemma letter_no_space: "0x41 \<le> c \<Longrightarrow> c \<le> 0x5A \<Longrightarrow> \<not> isWhiteSpace c"
  unfolding isWhiteSpace_def by auto

lemma keyword_no_space: "\<forall>kw \<in> set ddlKeywords. \<forall>c \<in> set kw. \<not> isWhiteSpace c"
  using keyword_letters letter_no_space by blast

lemma ddlPattern_trimEnd: "ddlPattern (trimEnd s) = ddlPattern s"
  using keyword_no_space
  by (simp only: ddlPattern_def list_ex_iff) (metis startsWith_trimEnd)

lemma ddlPattern_trim: "ddlPattern (trim q) = ddlPattern (trimStart q)"
  by (simp add: trim_def ddlPattern_trimEnd)

text \<open>The test of the code and the condition of the claim agree.\<close>

lemma unat_add_32:
  fixes k :: codeUnit
  assumes "k \<le> 0x5A"
  shows "unat (k + 0x20) = unat k + 32"
proof -
  from assms have "unat k \<le> 90" by (simp add: word_le_nat_alt)
  then have "unat k + unat (0x20 :: codeUnit) < 2 ^ LENGTH(16)" by simp
  then have "unat (k + 0x20) = unat k + unat (0x20 :: codeUnit)"
    by (simp only: unat_add_lem)
  then show ?thesis by simp
qed

lemma unat_sub_32:
  fixes c :: codeUnit
  assumes "0x61 \<le> c"
  shows "unat (c - 0x20) = unat c - 32"
proof -
  from assms have "(0x20 :: codeUnit) \<le> c" by (simp add: word_le_nat_alt)
  then have "unat (c - 0x20) = unat c - unat (0x20 :: codeUnit)" by (rule unat_sub)
  then show ?thesis by simp
qed

lemma toUpperAscii_unat:
  "unat (toUpperAscii c) = (if 97 \<le> unat c \<and> unat c \<le> 122 then unat c - 32 else unat c)"
  by (simp add: toUpperAscii_def unat_sub_32 word_le_nat_alt)

lemma toLowerAscii_unat:
  "unat (toLowerAscii c) = (if 65 \<le> unat c \<and> unat c \<le> 90 then unat c + 32 else unat c)"
  by (simp add: toLowerAscii_def unat_add_32 word_le_nat_alt)

lemma upper_lower_letter:
  assumes "0x41 \<le> k" and "k \<le> 0x5A"
  shows "(toUpperAscii c = k) = (toLowerAscii c = toLowerAscii k)"
proof -
  from assms have k: "65 \<le> unat k" "unat k \<le> 90" by (simp_all add: word_le_nat_alt)
  have "(toUpperAscii c = k) = (unat (toUpperAscii c) = unat k)"
    by (simp add: word_unat_eq_iff)
  also have "\<dots> = (unat (toLowerAscii c) = unat (toLowerAscii k))"
    using k by (auto simp: toUpperAscii_unat toLowerAscii_unat)
  also have "\<dots> = (toLowerAscii c = toLowerAscii k)"
    by (simp add: word_unat_eq_iff)
  finally show ?thesis .
qed

lemma map_upper_lower:
  "length s = length kw \<Longrightarrow> \<forall>k \<in> set kw. 0x41 \<le> k \<and> k \<le> 0x5A
     \<Longrightarrow> (map toUpperAscii s = kw) = (map toLowerAscii s = map toLowerAscii kw)"
proof (induction s kw rule: list_induct2)
  case Nil
  show ?case by simp
next
  case (Cons x xs k ks)
  then show ?case by (simp add: upper_lower_letter)
qed

lemma startsWith_spec:
  assumes "\<forall>k \<in> set kw. 0x41 \<le> k \<and> k \<le> 0x5A"
  shows "startsWithIgnoreCase kw s
           = (length kw \<le> length s \<and> equalIgnoringCase (take (length kw) s) kw)"
proof (cases "length kw \<le> length s")
  case True
  then have "length (take (length kw) s) = length kw" by simp
  from map_upper_lower [OF this assms] True show ?thesis
    by (simp add: startsWithIgnoreCase_def equalIgnoringCase_def)
next
  case False
  then have "length (map toUpperAscii (take (length kw) s)) \<noteq> length kw" by simp
  then have "map toUpperAscii (take (length kw) s) \<noteq> kw" by metis
  with False show ?thesis by (simp add: startsWithIgnoreCase_def)
qed

lemma ddlPattern_spec:
  "ddlPattern s
     = list_ex (\<lambda>kw. length kw \<le> length s \<and> equalIgnoringCase (take (length kw) s) kw)
         [js ''CREATE'', js ''ALTER'', js ''DROP'', js ''ATTACH'']"
proof -
  have "startsWithIgnoreCase kw s
          = (length kw \<le> length s \<and> equalIgnoringCase (take (length kw) s) kw)"
    if "kw \<in> set ddlKeywords" for kw
    using keyword_letters that by (intro startsWith_spec) blast
  then show ?thesis
    unfolding ddlPattern_def list_ex_iff by (auto simp: ddlKeywords_def)
qed

lemma ddlPattern_no_leading_space:
  assumes "ddlPattern s"
  shows "dropWhile isWhiteSpace s = s"
proof -
  from assms obtain kw where kw: "kw \<in> set ddlKeywords" "startsWithIgnoreCase kw s"
    by (auto simp: ddlPattern_def list_ex_iff)
  with keyword_letters obtain k ks where k: "kw = k # ks" "0x41 \<le> k" "k \<le> 0x5A"
    by (cases kw) auto
  with kw(2) obtain x xs where x: "s = x # xs" "toUpperAscii x = k"
    by (cases s) (auto simp: startsWith_Cons_Cons startsWith_Cons_Nil)
  have "\<not> isWhiteSpace x"
  proof
    assume w: "isWhiteSpace x"
    then have "toUpperAscii x = x" by (rule toUpperAscii_space)
    with x(2) w have "isWhiteSpace k" by simp
    with letter_no_space [OF k(2) k(3)] show False by simp
  qed
  with x(1) show ?thesis by simp
qed

lemma ddlStatement_iff: "ddlStatement q = ddlPattern (trimStart q)"
proof
  assume "ddlStatement q"
  then obtain ws rest where d: "q = ws @ rest" "list_all isWhiteSpace ws" "ddlPattern rest"
    unfolding ddlStatement_def ddlPattern_spec by blast
  from d(2) have "dropWhile isWhiteSpace (ws @ rest) = dropWhile isWhiteSpace rest"
    by (simp add: dropWhile_append2 list_all_iff)
  with ddlPattern_no_leading_space [OF d(3)] d(1) have "trimStart q = rest"
    by (simp add: trimStart_def)
  with d(3) show "ddlPattern (trimStart q)" by simp
next
  assume p: "ddlPattern (trimStart q)"
  have "q = takeWhile isWhiteSpace q @ trimStart q"
    by (simp add: trimStart_def)
  moreover have "list_all isWhiteSpace (takeWhile isWhiteSpace q)"
    by (auto simp: list_all_iff dest: set_takeWhileD)
  ultimately show "ddlStatement q"
    using p unfolding ddlStatement_def ddlPattern_spec by blast
qed

lemma ddlPattern_trim_spec: "ddlPattern (trim q) = ddlStatement q"
  by (simp add: ddlPattern_trim ddlStatement_iff)


lemma executeExternalQuery_events:
  "count_list (fst (executeExternalQuery w q c)) SchemaRefresh = 0"
  by (simp add: executeExternalQuery_def Let_def split: sum.splits)

lemma runWasmQuery_events: "count_list (fst (runWasmQuery w q st)) SchemaRefresh = 0"
  by (simp add: runWasmQuery_def split: sum.splits)

lemma runQuery_events: "count_list (fst (runQuery w q st)) SchemaRefresh = 0"
  by (simp add: runQuery_def executeExternalQuery_events runWasmQuery_events split: option.splits)

lemma fetchDatabasesAndTablesInfo_events:
  "snd (fetchDatabasesAndTablesInfo w st) = [SchemaRefresh]"
  by (simp add: fetchDatabasesAndTablesInfo_def Let_def)

lemma fetchDatabasesAndTablesInfo_frame:
  "queryHistory (fst (fetchDatabasesAndTablesInfo w st)) = queryHistory st
   \<and> tabs (fst (fetchDatabasesAndTablesInfo w st)) = tabs st
   \<and> isExecuting (fst (fetchDatabasesAndTablesInfo w st)) = isExecuting st"
  by (simp add: fetchDatabasesAndTablesInfo_def Let_def split: sum.splits)

text \<open>
  C3 (as amended). When the backend call fails with a non-empty message (a thrown value
  that is not an \<^verbatim>\<open>Error\<close> counts as \<open>Unknown error\<close>), \<open>executeQuery\<close>
  throws nothing: it returns, resolving to \<^verbatim>\<open>undefined\<close>. The result of every tab
  whose id is the given \<open>tabId\<close> becomes a query result with no columns, no rows and
  that message as its error, and the other tabs are as before; the first history entry
  is a new entry for the query that carries the message; the error of the state is the
  message; no schema refresh is made.
\<close>

theorem executeQuery_failure:
  assumes "snd (runQuery w q st) = Inl t" and "errorMessage t \<noteq> []"
  shows "\<exists>st' evs.
            executeQuery w uid now q tabId st = Inr (None, st', evs)
          \<and> error st' = Some (errorMessage t)
          \<and> isExecuting st' = False
          \<and> queryHistory st' = updateHistory uid now (queryHistory st) q (Some (errorMessage t))
          \<and> hd (queryHistory st')
              = \<lparr> h_id = uid, query = q, timestamp = now, h_error = Some (errorMessage t) \<rparr>
          \<and> tabs st'
              = map (\<lambda>tab. if Some (tab_id tab) = tabId
                            then tab\<lparr> result := Some \<lparr> columns = [], columnTypes = [], data = [],
                                                       rowCount = 0,
                                                       r_error = Some (errorMessage t) \<rparr> \<rparr>
                            else tab) (tabs st)
          \<and> count_list evs SchemaRefresh = 0"
proof -
  obtain evs where r: "runQuery w q st = (evs, Inl t)"
    using assms(1) by (cases "runQuery w q st") simp
  from runQuery_events [of w q st] r have e: "count_list evs SchemaRefresh = 0" by simp
  from assms(2) have n: "newItem uid now q (Some (errorMessage t))
      = \<lparr> h_id = uid, query = q, timestamp = now, h_error = Some (errorMessage t) \<rparr>"
    by (simp add: newItem_def)
  show ?thesis
    by (simp add: executeQuery_def r e Let_def updateHistory_hd n errorResult_def
        setTabResult_def)
qed

theorem executeQuery_failure_witness:
  "snd (runQuery (exampleBackend (Inl (JsError ''Parser Error: syntax error'')) (Inr []))
         (js ''SELEC 1'') connectedState) = Inl (JsError ''Parser Error: syntax error'')
   \<and> executeQuery (exampleBackend (Inl (JsError ''Parser Error: syntax error'')) (Inr []))
         ''id1'' 7 (js ''SELEC 1'') (Some ''home'') connectedState
       = Inr (None,
              connectedState
                \<lparr> queryHistory := [\<lparr> h_id = ''id1'', query = js ''SELEC 1'', timestamp = 7,
                                     h_error = Some ''Parser Error: syntax error'' \<rparr>],
                  tabs := [\<lparr> tab_id = ''home'', title = ''Home'', tab_type = Home,
                             content = Text [],
                             result = Some \<lparr> columns = [], columnTypes = [], data = [],
                                             rowCount = 0,
                                             r_error = Some ''Parser Error: syntax error'' \<rparr> \<rparr>],
                  error := Some ''Parser Error: syntax error'' \<rparr>,
              [WasmQuery (js ''SELEC 1'')])"
proof -
  let ?w = "exampleBackend (Inl (JsError ''Parser Error: syntax error'')) (Inr [])"
  have r: "snd (runQuery ?w (js ''SELEC 1'') connectedState)
             = Inl (JsError ''Parser Error: syntax error'')"
    by (simp add: runQuery_def runWasmQuery_def validateConnection_def exampleBackend_def
        connectedState_def initialState_def wasmProvider_def)
  have m: "errorMessage (JsError ''Parser Error: syntax error'') \<noteq> []"
    by (simp add: errorMessage_def)
  from executeQuery_failure [OF r m, of "''id1''" 7 "Some ''home''"]
  obtain st' evs where
    x: "executeQuery ?w ''id1'' 7 (js ''SELEC 1'') (Some ''home'') connectedState
          = Inr (None, st', evs)"
    by blast
  have v: "executeQuery ?w ''id1'' 7 (js ''SELEC 1'') (Some ''home'') connectedState
       = Inr (None,
              connectedState
                \<lparr> queryHistory := [\<lparr> h_id = ''id1'', query = js ''SELEC 1'', timestamp = 7,
                                     h_error = Some ''Parser Error: syntax error'' \<rparr>],
                  tabs := [\<lparr> tab_id = ''home'', title = ''Home'', tab_type = Home,
                             content = Text [],
                             result = Some \<lparr> columns = [], columnTypes = [], data = [],
                                             rowCount = 0,
                                             r_error = Some ''Parser Error: syntax error'' \<rparr> \<rparr>],
                  error := Some ''Parser Error: syntax error'' \<rparr>,
              [WasmQuery (js ''SELEC 1'')])"
    using x
    by (simp add: executeQuery_def runQuery_def runWasmQuery_def validateConnection_def
        exampleBackend_def connectedState_def initialState_def wasmProvider_def
        errorMessage_def updateHistory_def newItem_def setTabResult_def errorResult_def
        homeTab_def Let_def)
  from r v show ?thesis by simp
qed

text \<open>
  C3 as stated fails in two ways. For a failure with an empty message the history entry
  has no error field (the message is tested for truthiness) and the error of the state
  is the empty string. For a failure of a call without a tab id the call resolves to
  \<^verbatim>\<open>undefined\<close> and no tab gets a result: no query result is produced.
\<close>

theorem executeQuery_failure_counterexample:
  "snd (runQuery (exampleBackend (Inl (JsError [])) (Inr [])) (js ''SELEC 1'') connectedState)
     = Inl (JsError [])
   \<and> executeQuery (exampleBackend (Inl (JsError [])) (Inr []))
        ''id1'' 7 (js ''SELEC 1'') (Some ''home'') connectedState
       = Inr (None,
              connectedState
                \<lparr> queryHistory := [\<lparr> h_id = ''id1'', query = js ''SELEC 1'', timestamp = 7,
                                     h_error = None \<rparr>],
                  tabs := [\<lparr> tab_id = ''home'', title = ''Home'', tab_type = Home,
                             content = Text [],
                             result = Some \<lparr> columns = [], columnTypes = [], data = [],
                                             rowCount = 0, r_error = Some [] \<rparr> \<rparr>],
                  error := Some [] \<rparr>,
              [WasmQuery (js ''SELEC 1'')])
   \<and> executeQuery (exampleBackend (Inl (JsError ''Parser Error: syntax error'')) (Inr []))
        ''id1'' 7 (js ''SELEC 1'') None connectedState
       = Inr (None,
              connectedState
                \<lparr> queryHistory := [\<lparr> h_id = ''id1'', query = js ''SELEC 1'', timestamp = 7,
                                     h_error = Some ''Parser Error: syntax error'' \<rparr>],
                  error := Some ''Parser Error: syntax error'' \<rparr>,
              [WasmQuery (js ''SELEC 1'')])
   \<and> map result (tabs connectedState) = [None]"
  by (simp add: executeQuery_def runQuery_def runWasmQuery_def validateConnection_def
      exampleBackend_def connectedState_def initialState_def wasmProvider_def errorMessage_def
      updateHistory_def newItem_def setTabResult_def errorResult_def homeTab_def Let_def)

text \<open>
  C7. When the backend call succeeds, \<open>executeQuery\<close> makes one schema refresh if the
  query text, with its leading whitespace removed, starts with \<open>CREATE\<close>,
  \<open>ALTER\<close>, \<open>DROP\<close> or \<open>ATTACH\<close> in any letter case (\<open>ddlStatement\<close>), and
  none otherwise. Whatever the refresh does, the call returns and resolves to the query
  result (to \<^verbatim>\<open>undefined\<close> when a non-empty tab id is given), the result is
  attached to the tabs with that id, and the history gets the entry without an error.
\<close>

theorem executeQuery_ddl_refresh:
  assumes "snd (runQuery w q st) = Inr qr"
  shows "\<exists>st' evs.
            executeQuery w uid now q tabId st
              = Inr (if tabId = None \<or> tabId = Some [] then Some qr else None, st', evs)
          \<and> count_list evs SchemaRefresh = (if ddlStatement q then 1 else 0)
          \<and> queryHistory st' = updateHistory uid now (queryHistory st) q None
          \<and> hd (queryHistory st')
              = \<lparr> h_id = uid, query = q, timestamp = now, h_error = None \<rparr>
          \<and> tabs st'
              = map (\<lambda>tab. if Some (tab_id tab) = tabId then tab\<lparr> result := Some qr \<rparr> else tab)
                  (tabs st)
          \<and> isExecuting st' = False"
proof -
  obtain evs where r: "runQuery w q st = (evs, Inr qr)"
    using assms by (cases "runQuery w q st") simp
  from runQuery_events [of w q st] r have e: "count_list evs SchemaRefresh = 0" by simp
  have n: "newItem uid now q None = \<lparr> h_id = uid, query = q, timestamp = now, h_error = None \<rparr>"
    by (simp add: newItem_def)
  have tr: "truthy tabId = (\<not> (tabId = None \<or> tabId = Some []))"
    by (cases tabId) (simp_all add: truthy_def)
  let ?s2 = "st\<lparr> isExecuting := True, error := None,
                 queryHistory := updateHistory uid now (queryHistory st) q None,
                 tabs := setTabResult tabId qr (tabs st), isExecuting := False \<rparr>"
  show ?thesis
  proof (cases "ddlStatement q")
    case True
    obtain s3 where f: "fetchDatabasesAndTablesInfo w ?s2 = (s3, [SchemaRefresh])"
      using fetchDatabasesAndTablesInfo_events [of w ?s2]
      by (cases "fetchDatabasesAndTablesInfo w ?s2") simp
    from fetchDatabasesAndTablesInfo_frame [of w ?s2] f
    have "queryHistory s3 = updateHistory uid now (queryHistory st) q None
        \<and> tabs s3 = setTabResult tabId qr (tabs st) \<and> isExecuting s3 = False"
      by simp
    with True f e show ?thesis
      by (simp add: executeQuery_def r Let_def ddlPattern_trim_spec updateHistory_hd n tr
          setTabResult_def)
  next
    case False
    with e show ?thesis
      by (simp add: executeQuery_def r Let_def ddlPattern_trim_spec updateHistory_hd n tr
          setTabResult_def)
  qed
qed


theorem executeQuery_ddl_refresh_witness:
  "executeQuery (exampleBackend (Inr emptyResult) (Inl (JsError ''boom'')))
       ''id1'' 7 (js ''CREATE TABLE t(x INT)'') None connectedState
     = Inr (Some \<lparr> columns = [], columnTypes = [], data = [], rowCount = 0, r_error = None \<rparr>,
            connectedState
              \<lparr> queryHistory := [\<lparr> h_id = ''id1'', query = js ''CREATE TABLE t(x INT)'',
                                   timestamp = 7, h_error = None \<rparr>],
                error := Some ''Failed to load schema: boom'',
                isLoadingDbTablesFetch := False \<rparr>,
            [WasmQuery (js ''CREATE TABLE t(x INT)''), SchemaRefresh])
   \<and> (\<exists>ret st'. executeQuery (exampleBackend (Inr emptyResult) (Inr []))
          ''id2'' 8 (0x3000 # 0x000A # js ''  alter table t add y int '') None connectedState
        = Inr (ret, st',
               [WasmQuery (0x3000 # 0x000A # js ''  alter table t add y int ''), SchemaRefresh]))
   \<and> (\<exists>ret st'. executeQuery (exampleBackend (Inr emptyResult) (Inr []))
          ''id3'' 9 (js ''Drop Table t'') None connectedState
        = Inr (ret, st', [WasmQuery (js ''Drop Table t''), SchemaRefresh]))
   \<and> (\<exists>ret st'. executeQuery (exampleBackend (Inr emptyResult) (Inr []))
          ''id4'' 10 (0x0009 # js ''aTTaCH 'f.db' AS f'') None connectedState
        = Inr (ret, st', [WasmQuery (0x0009 # js ''aTTaCH 'f.db' AS f''), SchemaRefresh]))
   \<and> (\<exists>ret st'. executeQuery (exampleBackend (Inr emptyResult) (Inr []))
          ''id5'' 11 (js ''SELECT 1'') None connectedState
        = Inr (ret, st', [WasmQuery (js ''SELECT 1'')]))
   \<and> (\<exists>ret st'. executeQuery (exampleBackend (Inr emptyResult) (Inr []))
          ''id6'' 12 (js ''-- CREATE TABLE t'') None connectedState
        = Inr (ret, st', [WasmQuery (js ''-- CREATE TABLE t'')]))
   \<and> (\<exists>ret st'. executeQuery (exampleBackend (Inr emptyResult) (Inr []))
          ''id7'' 13 (js ''CREAT'') None connectedState
        = Inr (ret, st', [WasmQuery (js ''CREAT'')]))
   \<and> ddlStatement (js ''CREATE TABLE t(x INT)'')
   \<and> ddlStatement (0x3000 # 0x000A # js ''  alter table t add y int '')
   \<and> ddlStatement (js ''Drop Table t'')
   \<and> ddlStatement (0x0009 # js ''aTTaCH 'f.db' AS f'')
   \<and> \<not> ddlStatement (js ''SELECT 1'')
   \<and> \<not> ddlStatement (js ''-- CREATE TABLE t'')
   \<and> \<not> ddlStatement (js ''CREAT'')"
proof -
  let ?qr = "\<lparr> columns = [], columnTypes = [], data = [], rowCount = 0, r_error = None \<rparr>"
  have r: "snd (runQuery (exampleBackend (Inr emptyResult) dbs) q connectedState) = Inr ?qr"
    and e: "fst (runQuery (exampleBackend (Inr emptyResult) dbs) q connectedState) = [WasmQuery q]"
    for q dbs
    by (simp_all add: runQuery_def runWasmQuery_def validateConnection_def exampleBackend_def
        connectedState_def initialState_def wasmProvider_def resultToJSON_def emptyResult_def)
  have d: "ddlStatement (js ''CREATE TABLE t(x INT)'')"
    "ddlStatement (0x3000 # 0x000A # js ''  alter table t add y int '')"
    "ddlStatement (js ''Drop Table t'')"
    "ddlStatement (0x0009 # js ''aTTaCH 'f.db' AS f'')"
    "\<not> ddlStatement (js ''SELECT 1'')"
    "\<not> ddlStatement (js ''-- CREATE TABLE t'')"
    "\<not> ddlStatement (js ''CREAT'')"
    by (simp_all add: ddlStatement_iff ddlPattern_def ddlKeywords_def startsWithIgnoreCase_def
        toUpperAscii_def trimStart_def isWhiteSpace_def js_def)
  have refresh: "\<exists>ret st'. executeQuery (exampleBackend (Inr emptyResult) (Inr [])) uid now q None
                    connectedState = Inr (ret, st', [WasmQuery q, SchemaRefresh])"
    if "ddlStatement q" for uid now q
  proof -
    from executeQuery_ddl_refresh [where w = "exampleBackend (Inr emptyResult) (Inr [])"
        and q = q and st = connectedState and qr = ?qr and uid = uid and now = now
        and tabId = None, OF r]
    obtain st' evs where
      x: "executeQuery (exampleBackend (Inr emptyResult) (Inr [])) uid now q None connectedState
            = Inr (Some ?qr, st', evs)"
      by auto
    obtain f where f: "fetchDatabasesAndTablesInfo (exampleBackend (Inr emptyResult) (Inr []))
        (connectedState\<lparr> isExecuting := True, error := None,
            queryHistory := updateHistory uid now (queryHistory connectedState) q None,
            tabs := setTabResult None ?qr (tabs connectedState), isExecuting := False \<rparr>)
        = (f, [SchemaRefresh])"
      by (metis fetchDatabasesAndTablesInfo_events prod.collapse)
    from x that f have "evs = [WasmQuery q, SchemaRefresh]"
      using r [of "Inr []" q] e [of "Inr []" q]
      by (cases "runQuery (exampleBackend (Inr emptyResult) (Inr [])) q connectedState")
         (simp add: executeQuery_def Let_def ddlPattern_trim_spec)
    with x show ?thesis by blast
  qed
  have none: "\<exists>ret st'. executeQuery (exampleBackend (Inr emptyResult) (Inr [])) uid now q None
                    connectedState = Inr (ret, st', [WasmQuery q])"
    if "\<not> ddlStatement q" for uid now q
    using that r [of "Inr []" q] e [of "Inr []" q]
    by (cases "runQuery (exampleBackend (Inr emptyResult) (Inr [])) q connectedState")
       (simp add: executeQuery_def Let_def ddlPattern_trim_spec)
  have v: "executeQuery (exampleBackend (Inr emptyResult) (Inl (JsError ''boom'')))
       ''id1'' 7 (js ''CREATE TABLE t(x INT)'') None connectedState
     = Inr (Some ?qr,
            connectedState
              \<lparr> queryHistory := [\<lparr> h_id = ''id1'', query = js ''CREATE TABLE t(x INT)'',
                                   timestamp = 7, h_error = None \<rparr>],
                error := Some ''Failed to load schema: boom'',
                isLoadingDbTablesFetch := False \<rparr>,
            [WasmQuery (js ''CREATE TABLE t(x INT)''), SchemaRefresh])"
    using d(1) r [of "Inl (JsError ''boom'')" "js ''CREATE TABLE t(x INT)''"]
      e [of "Inl (JsError ''boom'')" "js ''CREATE TABLE t(x INT)''"]
    by (cases "runQuery (exampleBackend (Inr emptyResult) (Inl (JsError ''boom'')))
                 (js ''CREATE TABLE t(x INT)'') connectedState")
       (simp add: executeQuery_def ddlPattern_trim_spec fetchDatabasesAndTablesInfo_def Let_def
          isExternal_def connectedState_def initialState_def wasmProvider_def
          validateConnection_def exampleBackend_def errorMessage_def updateHistory_def
          newItem_def setTabResult_def truthy_def homeTab_def)
  from v refresh [OF d(2)] refresh [OF d(3)] refresh [OF d(4)] none [OF d(5)] none [OF d(6)]
    none [OF d(7)] d
  show ?thesis by blast
qed


subsection \<open>Result normalisation\<close>

lemma set_keys: "set (keys obj) = fst ` set obj"
  by (auto simp: keys_def Let_def)

lemma distinct_keys: "distinct (map fst obj) \<Longrightarrow> distinct (keys obj)"
  by (auto simp: keys_def Let_def)

lemma assign_names:
  "fst ` set props \<subseteq> fst ` set (snd (assign k v (plain, props)))
   \<and> fst ` set (snd (assign k v (plain, props))) \<subseteq> insert k (fst ` set props)
   \<and> (k \<noteq> ''__proto__'' \<longrightarrow> k \<in> fst ` set (snd (assign k v (plain, props))))
   \<and> (distinct (map fst props) \<longrightarrow> distinct (map fst (snd (assign k v (plain, props)))))"
  by (auto simp: assign_def dom_update distinct_update)

lemma assign_mono: "fst ` set (snd obj) \<subseteq> fst ` set (snd (assign k v obj))"
  using assign_names [of "snd obj" k v "fst obj"] by simp

lemma assign_upper: "fst ` set (snd (assign k v obj)) \<subseteq> insert k (fst ` set (snd obj))"
  using assign_names [of "snd obj" k v "fst obj"] by simp

lemma assign_member: "k \<noteq> ''__proto__'' \<Longrightarrow> k \<in> fst ` set (snd (assign k v obj))"
  using assign_names [of "snd obj" k v "fst obj"] by simp

lemma assign_distinct:
  "distinct (map fst (snd obj)) \<Longrightarrow> distinct (map fst (snd (assign k v obj)))"
  using assign_names [of "snd obj" k v "fst obj"] by simp

lemma foldl_assign_mono:
  "fst ` set (snd obj)
     \<subseteq> fst ` set (snd (foldl (\<lambda>obj (index, col). assign col (f index) obj) obj ps))"
proof (induction ps arbitrary: obj)
  case Nil
  show ?case by simp
next
  case (Cons p ps)
  obtain index col where p: "p = (index, col)" by (cases p)
  have "fst ` set (snd obj) \<subseteq> fst ` set (snd (assign col (f index) obj))"
    by (rule assign_mono)
  also have "\<dots> \<subseteq> fst ` set (snd (foldl (\<lambda>obj (index, col). assign col (f index) obj)
                                      (assign col (f index) obj) ps))"
    by (rule Cons.IH)
  finally show ?case by (simp add: p)
qed

lemma foldl_assign_upper:
  "fst ` set (snd (foldl (\<lambda>obj (index, col). assign col (f index) obj) obj ps))
     \<subseteq> fst ` set (snd obj) \<union> snd ` set ps"
proof (induction ps arbitrary: obj)
  case Nil
  show ?case by simp
next
  case (Cons p ps)
  obtain index col where p: "p = (index, col)" by (cases p)
  have "fst ` set (snd (foldl (\<lambda>obj (index, col). assign col (f index) obj)
                          (assign col (f index) obj) ps))
          \<subseteq> fst ` set (snd (assign col (f index) obj)) \<union> snd ` set ps"
    by (rule Cons.IH)
  also have "\<dots> \<subseteq> insert col (fst ` set (snd obj)) \<union> snd ` set ps"
    using assign_upper [of col "f index" obj] by blast
  finally show ?case by (simp add: p)
qed

lemma foldl_assign_member:
  "snd ` set ps - {''__proto__''}
     \<subseteq> fst ` set (snd (foldl (\<lambda>obj (index, col). assign col (f index) obj) obj ps))"
proof (induction ps arbitrary: obj)
  case Nil
  show ?case by simp
next
  case (Cons p ps)
  obtain index col where p: "p = (index, col)" by (cases p)
  let ?o = "assign col (f index) obj"
  let ?r = "fst ` set (snd (foldl (\<lambda>obj (index, col). assign col (f index) obj) ?o ps))"
  have a: "snd ` set ps - {''__proto__''} \<subseteq> ?r" by (rule Cons.IH)
  have b: "fst ` set (snd ?o) \<subseteq> ?r" by (rule foldl_assign_mono)
  have c: "col \<noteq> ''__proto__'' \<Longrightarrow> col \<in> ?r"
    using assign_member [of col "f index" obj] b by blast
  have "insert col (snd ` set ps) - {''__proto__''} \<subseteq> ?r"
    using a c by blast
  then show ?case by (simp add: p)
qed

lemma foldl_assign_distinct:
  "distinct (map fst (snd obj)) \<Longrightarrow>
     distinct (map fst (snd (foldl (\<lambda>obj (index, col). assign col (f index) obj) obj ps)))"
proof (induction ps arbitrary: obj)
  case Nil
  then show ?case by simp
next
  case (Cons p ps)
  obtain index col where p: "p = (index, col)" by (cases p)
  have "distinct (map fst (snd (assign col (f index) obj)))"
    using Cons.prems by (rule assign_distinct)
  then have "distinct (map fst (snd (foldl (\<lambda>obj (index, col). assign col (f index) obj)
                                      (assign col (f index) obj) ps)))"
    by (rule Cons.IH)
  then show ?case by (simp add: p)
qed

lemma snd_set_enumerate: "snd ` set (enumerate n xs) = set xs"
  by (metis list.set_map map_snd_enumerate)

lemma rowObject_keys:
  "set cols - {''__proto__''} \<subseteq> set (keys (rowObject cols row))
   \<and> set (keys (rowObject cols row)) \<subseteq> set cols
   \<and> distinct (keys (rowObject cols row))"
  using foldl_assign_member [of "enumerate 0 cols" "at row" "(True, [])"]
    foldl_assign_upper [of "at row" "(True, [])" "enumerate 0 cols"]
    foldl_assign_distinct [of "(True, [])" "at row" "enumerate 0 cols"]
  by (simp add: rowObject_def set_keys distinct_keys snd_set_enumerate)

lemma rawResultToJSON_wellformed:
  assumes "parse raw = Inr (Some env)" and "e_meta env = Some pmeta" and "e_data env = Some pdata"
  shows "rawResultToJSON parse raw =
           Inr \<lparr> columns = map m_name pmeta, columnTypes = map m_type pmeta,
                 data = map (rowObject (map m_name pmeta)) pdata,
                 rowCount = (case e_rows env of
                               None \<Rightarrow> int (length pdata)
                             | Some n \<Rightarrow> if n = 0 then int (length pdata) else n),
                 r_error = None \<rparr>"
  using assms by (simp add: rawResultToJSON_def Let_def split: option.splits)

lemma rawResultToJSON_lengths:
  "rawResultToJSON parse raw = Inr r \<Longrightarrow> length (columns r) = length (columnTypes r)"
  by (auto simp: rawResultToJSON_def Let_def split: sum.splits option.splits)

lemma resultToJSON_lengths:
  "length (columns (resultToJSON localeDate mkDate res))
     = length (columnTypes (resultToJSON localeDate mkDate res))"
  by (simp add: resultToJSON_def)

text \<open>
  Both normalizers give as many column types as columns. On the remote path a response
  that parses and has the two arrays is converted, one row object per element of
  \<^verbatim>\<open>data\<close>; every key of a row object is a column, and every column other than
  \<^verbatim>\<open>__proto__\<close> is a key of every row object.
\<close>

lemma normalizers_shape:
  assumes "parse raw = Inr (Some env)" and "e_meta env = Some pmeta" and "e_data env = Some pdata"
  shows "(\<exists>r. rawResultToJSON parse raw = Inr r
            \<and> length (columns r) = length (columnTypes r)
            \<and> length (data r) = length pdata
            \<and> (\<forall>row \<in> set (data r).
                  set (columns r) - {''__proto__''} \<subseteq> set (keys row)
                  \<and> set (keys row) \<subseteq> set (columns r)
                  \<and> distinct (keys row)))
       \<and> length (columns (resultToJSON localeDate mkDate res))
           = length (columnTypes (resultToJSON localeDate mkDate res))"
  using rowObject_keys [of "map m_name pmeta"]
  by (simp add: rawResultToJSON_wellformed [where parse = parse and raw = raw, OF assms]
      resultToJSON_lengths)

text \<open>
  After a \<^verbatim>\<open>null\<close> in a column \<^verbatim>\<open>__proto__\<close> the row object has no prototype,
  and a second column of that name becomes an own property.
\<close>

lemma rowObject_null_prototype:
  "rowObject [''__proto__'', ''__proto__'', ''n''] [VNull, VNum 5, VNum 2]
     = [(''__proto__'', VNum 5), (''n'', VNum 2)]"
  by (simp add: rowObject_def assign_def at_def)

text \<open>
  C8, at a failing input. For a response with the columns \<^verbatim>\<open>__proto__\<close> and
  \<^verbatim>\<open>n\<close>, \<open>rawResultToJSON\<close> lists both columns, and the row object it builds has
  the key \<^verbatim>\<open>n\<close> only: the row does not have exactly the keys listed in
  \<open>columns\<close>. (By \<open>normalizers_shape\<close> this column name is the only way to fail.)
\<close>

theorem rawResultToJSON_proto_column:
  "rawResultToJSON (\<lambda>_. Inr (Some protoEnvelope)) protoResponse
     = Inr \<lparr> columns = [''__proto__'', ''n''], columnTypes = [''UInt8'', ''UInt8''],
             data = [[(''n'', VNum 2)]], rowCount = 1, r_error = None \<rparr>
   \<and> keys (rowObject [''__proto__'', ''n''] [VNum 1, VNum 2]) = [''n'']"
  by (simp add: rawResultToJSON_def protoEnvelope_def rowObject_def assign_def at_def keys_def
      arrayIndex_def digitValue_def)

text \<open>\<^verbatim>\<open>Object.keys\<close> lists the names that are array indices first.\<close>

lemma keys_order: "keys [(''b'', VNum 1), (''1'', VNum 2), (''0'', VNum 3)] = [''0'', ''1'', ''b'']"
  by (simp add: keys_def arrayIndex_def digitValue_def)


subsection \<open>Import pipeline\<close>

lemma tableName_ok: "tableNameSchema (Some (js ''a'')) = Inr (js ''a'')"
  by (simp add: tableNameSchema_def trim_def trimStart_def trimEnd_def isWhiteSpace_def
      tableNameChar_def js_def)

lemma startJob_pending:
  "snd (startJob snap file cur)
     = (map_option fi_status (map_of (importStates snap) (file_name file)) \<noteq> Some Success
        \<and> \<not> isl (tableNameSchema (map_of (tableNames snap) (file_name file))))"
  by (simp add: startJob_def split: sum.splits)

lemma startJobs_pending:
  "map snd (snd (startJobs snap fs cur))
     = map (\<lambda>file. map_option fi_status (map_of (importStates snap) (file_name file)) \<noteq> Some Success
                   \<and> \<not> isl (tableNameSchema (map_of (tableNames snap) (file_name file)))) fs"
proof (induction fs arbitrary: cur)
  case Nil
  show ?case by simp
next
  case (Cons f rest)
  obtain cur1 p where j: "startJob snap f cur = (cur1, p)"
    by (cases "startJob snap f cur")
  obtain cur2 ps where js: "startJobs snap rest cur1 = (cur2, ps)"
    by (cases "startJobs snap rest cur1")
  from Cons.IH [of cur1] js startJob_pending [of snap f cur] j show ?case
    by simp
qed

text \<open>
  C1, at a failing input. With 10 submitted valid files, all pending, \<open>handleFileUpload\<close>
  has put all 10 jobs into the state \<^verbatim>\<open>processing\<close>, each suspended at the first
  step of its import, when it reaches \<^verbatim>\<open>await Promise.all(concurrencyQueue)\<close>; the
  chunks of at most \<open>MAX_CONCURRENT_UPLOADS\<close> promises group jobs that are already
  running.
\<close>

theorem handleFileUpload_ten_in_flight:
  "inFlight (fst (handleFileUpload (submitted batchNames)))
     = map (\<lambda>n. n @ ''.csv'') batchNames
   \<and> length (inFlight (fst (handleFileUpload (submitted batchNames)))) = 10
   \<and> map length (snd (handleFileUpload (submitted batchNames))) = [3, 3, 3, 1]"
  by code_simp

end
